theory Spec2Isabelle
  imports Complex_Main "HOL-Library.Product_Lexorder"
begin

section \<open>Data model\<close>

text \<open>
  A coordinate sequence holds tuples of one fixed arity: pairs \<open>(x, y)\<close> or triples
  \<open>(x, y, z)\<close>. The number type is a parameter; the orientation algorithms compute
  with exact reals where the Python code computes with float64.
\<close>

datatype 'a coord_seq = XY "('a \<times> 'a) list" | XYZ "('a \<times> 'a \<times> 'a) list"

datatype 'a geometry =
    Point "'a coord_seq"
  | LineString "'a coord_seq"
  | LinearRing "'a coord_seq"
  | Polygon "'a coord_seq" "'a coord_seq list"
  | MultiPoint "'a geometry list"
  | MultiLineString "'a geometry list"
  | MultiPolygon "'a geometry list"
  | GeometryCollection "'a geometry list"

datatype error =
    IndexError
  | ValueError
  | TypeError
  | AttributeError
  | NotImplementedError
  | TopologicalError
  | GeometryTypeError
  | GEOSException
  | UserError nat

fun geom_type :: "'a geometry \<Rightarrow> string" where
  "geom_type (Point _) = ''Point''"
| "geom_type (LineString _) = ''LineString''"
| "geom_type (LinearRing _) = ''LinearRing''"
| "geom_type (Polygon _ _) = ''Polygon''"
| "geom_type (MultiPoint _) = ''MultiPoint''"
| "geom_type (MultiLineString _) = ''MultiLineString''"
| "geom_type (MultiPolygon _) = ''MultiPolygon''"
| "geom_type (GeometryCollection _) = ''GeometryCollection''"

fun len_coords :: "'a coord_seq \<Rightarrow> nat" where
  "len_coords (XY ps) = length ps"
| "len_coords (XYZ ps) = length ps"

text \<open>The slice \<^verbatim>\<open>[:, :2]\<close> of the coordinate array: the first two columns.\<close>

fun first_two :: "'a coord_seq \<Rightarrow> ('a \<times> 'a) list" where
  "first_two (XY ps) = ps"
| "first_two (XYZ ps) = map (\<lambda>(x, y, z). (x, y)) ps"

text \<open>\<^verbatim>\<open>list(ring.coords)[::-1]\<close>: the tuples in reverse order.\<close>

fun reversed :: "'a coord_seq \<Rightarrow> 'a coord_seq" where
  "reversed (XY ps) = XY (rev ps)"
| "reversed (XYZ ps) = XYZ (rev ps)"

text \<open>Whether the tuples of a coordinate sequence have a third coordinate.\<close>

fun has_z_seq :: "'a coord_seq \<Rightarrow> bool" where
  "has_z_seq (XY ps) = False"
| "has_z_seq (XYZ ps) = True"

text \<open>
  The \<^verbatim>\<open>coords\<close> property: points and lines have a coordinate sequence, a polygon
  raises NotImplementedError (polygon.py), and so do the multi-part geometries.
\<close>

fun coords :: "'a geometry \<Rightarrow> error + 'a coord_seq" where
  "coords (Point cs) = Inr cs"
| "coords (LineString cs) = Inr cs"
| "coords (LinearRing cs) = Inr cs"
| "coords _ = Inl NotImplementedError"

fun exterior :: "'a geometry \<Rightarrow> error + 'a geometry" where
  "exterior (Polygon shell holes) = Inr (LinearRing shell)"
| "exterior _ = Inl AttributeError"

fun interiors :: "'a geometry \<Rightarrow> error + 'a geometry list" where
  "interiors (Polygon shell holes) = Inr (map LinearRing holes)"
| "interiors _ = Inl AttributeError"

section \<open>Orientation: cga.py\<close>

text \<open>
  \<^verbatim>\<open>signed_area\<close>: the first two columns of the coordinates, the row at index 1
  appended (IndexError when there is none), then
  \<^verbatim>\<open>sum(xs[1:-1] * (ys[2:] - ys[:-2])) / 2.0\<close>.
\<close>

definition signed_area_xy :: "(real \<times> real) list \<Rightarrow> error + real" where
  "signed_area_xy cs =
     (if length cs < 2 then Inl IndexError
      else
        let stacked = cs @ [cs ! 1];
            xs = map fst stacked;
            ys = map snd stacked
        in Inr (sum_list (map2 (*) (butlast (tl xs))
                  (map2 (-) (drop 2 ys) (take (length ys - 2) ys))) / 2))"

definition signed_area :: "real geometry \<Rightarrow> error + real" where
  "signed_area ring =
     (case coords ring of
        Inl e \<Rightarrow> Inl e
      | Inr cs \<Rightarrow> signed_area_xy (first_two cs))"


text \<open>
  The argument of \<^verbatim>\<open>is_ccw\<close>: one geometry, \<^verbatim>\<open>None\<close>, or an iterable of these
  (anything without a \<^verbatim>\<open>geom_type\<close> attribute). The result is one flag or an array
  of flags.
\<close>

datatype 'a geom_arg = Single "'a geometry option" | Batch "'a geometry option list"

datatype ccw_result = Flag bool | Flags "bool list"

text \<open>A list comprehension whose body may raise: the first error ends it.\<close>

fun sequence :: "('e + 'b) list \<Rightarrow> 'e + 'b list" where
  "sequence [] = Inr []"
| "sequence (Inl e # rs) = Inl e"
| "sequence (Inr v # rs) = (case sequence rs of Inl e \<Rightarrow> Inl e | Inr vs \<Rightarrow> Inr (v # vs))"

text \<open>The branches of \<^verbatim>\<open>_is_ccw_fallback\<close> for an argument that is not an iterable.\<close>

definition is_ccw_fallback_one :: "real geometry option \<Rightarrow> error + bool" where
  "is_ccw_fallback_one geometry =
     (case geometry of
        None \<Rightarrow> Inr False
      | Some g \<Rightarrow>
          if geom_type g \<in> set [''LinearRing'', ''LineString''] then
            (case coords g of
               Inl e \<Rightarrow> Inl e
             | Inr cs \<Rightarrow>
                 if len_coords cs < 4 then Inr False
                 else (case signed_area g of
                         Inl e \<Rightarrow> Inl e
                       | Inr a \<Rightarrow> Inr (a \<ge> 0)))
          else Inr False)"

text \<open>
  \<^verbatim>\<open>_is_ccw_fallback(geometry, **kwargs)\<close>; \<open>kwargs\<close> are the names of the keyword
  arguments given. The recursive calls on the elements of an iterable pass none.
\<close>

definition is_ccw_fallback :: "string list \<Rightarrow> real geom_arg \<Rightarrow> error + ccw_result" where
  "is_ccw_fallback kwargs geometry =
     (if kwargs \<noteq> [] then Inl NotImplementedError
      else case geometry of
        Single g \<Rightarrow> map_sum id Flag (is_ccw_fallback_one g)
      | Batch gs \<Rightarrow> map_sum id Flags (sequence (map is_ccw_fallback_one gs)))"

text \<open>
  \<^verbatim>\<open>is_ccw = _is_ccw_geos_3_7 if geos_version >= (3, 7, 0) else _is_ccw_fallback\<close>.
  The native check and the version of the native library are not part of the sources:
  they are fields of the environment, with the native validity check.
\<close>

record geos =
  geos_version :: "nat \<times> nat \<times> nat"
  is_ccw_geos_3_7 :: "real geom_arg \<Rightarrow> error + ccw_result"
  is_valid :: "real geometry \<Rightarrow> bool"

definition is_ccw :: "geos \<Rightarrow> real geom_arg \<Rightarrow> error + ccw_result" where
  "is_ccw env =
     (if geos_version env \<ge> (3, 7, 0) then is_ccw_geos_3_7 env else is_ccw_fallback [])"

section \<open>Constructors: polygon.py\<close>

text \<open>
  What a constructor can be given: nothing, a geometry object, a numeric array (its rows),
  or another sequence, whose items are coordinate tuples or Point objects.
\<close>

datatype 'a seq_item = Tuple "'a list" | PointObj "'a geometry"

datatype 'a ctor_arg =
    ArgNone
  | ArgGeom "'a geometry"
  | ArgArray "'a list list"
  | ArgSeq "'a seq_item list"

text \<open>
  A constructor returns either the very object it was given (\<open>Same\<close>) or an object built
  by the native library (\<open>Fresh\<close>).
\<close>

datatype 'a made = Same "'a geometry" | Fresh "'a geometry"

fun made_geom :: "'a made \<Rightarrow> 'a geometry" where
  "made_geom (Same g) = g"
| "made_geom (Fresh g) = g"

fun rows_of :: "'a coord_seq \<Rightarrow> 'a list list" where
  "rows_of (XY ps) = map (\<lambda>(x, y). [x, y]) ps"
| "rows_of (XYZ ps) = map (\<lambda>(x, y, z). [x, y, z]) ps"

text \<open>Rows of one arity, 2 or 3, as a coordinate sequence; anything else is refused.\<close>

definition of_rows :: "'a list list \<Rightarrow> error + 'a coord_seq" where
  "of_rows rows =
     (if list_all (\<lambda>r. length r = 2) rows then Inr (XY (map (\<lambda>r. (r ! 0, r ! 1)) rows))
      else if list_all (\<lambda>r. length r = 3) rows
           then Inr (XYZ (map (\<lambda>r. (r ! 0, r ! 1, r ! 2)) rows))
      else Inl ValueError)"

text \<open>
  Modelled from the spec: \<^verbatim>\<open>shapely.linearrings\<close>, the native construction of a ring
  from coordinates. ``A LinearRing's coordinate sequence is closed: first coordinate equals
  last; any non-closed input is closed implicitly at construction.''
\<close>

definition close_ring :: "'a list list \<Rightarrow> 'a list list" where
  "close_ring rows = (if rows \<noteq> [] \<and> hd rows \<noteq> last rows then rows @ [hd rows] else rows)"

definition linearrings :: "'a list list \<Rightarrow> error + 'a geometry" where
  "linearrings rows = map_sum id LinearRing (of_rows (close_ring rows))"

text \<open>\<^verbatim>\<open>isinstance(g, LineString)\<close>: LinearRing is a subclass of LineString.\<close>

fun isinstance_LineString :: "'a geometry \<Rightarrow> bool" where
  "isinstance_LineString (LineString _) = True"
| "isinstance_LineString (LinearRing _) = True"
| "isinstance_LineString _ = False"

fun is_LinearRing :: "'a geometry \<Rightarrow> bool" where
  "is_LinearRing (LinearRing _) = True"
| "is_LinearRing _ = False"

fun is_Polygon :: "'a geometry \<Rightarrow> bool" where
  "is_Polygon (Polygon _ _) = True"
| "is_Polygon _ = False"

text \<open>The local helper \<^verbatim>\<open>_coords\<close>: a Point gives its first coordinate tuple.\<close>

fun coords_item :: "'a seq_item \<Rightarrow> error + 'a list" where
  "coords_item (PointObj (Point cs)) =
     (case rows_of cs of [] \<Rightarrow> Inl IndexError | r # _ \<Rightarrow> Inr r)"
| "coords_item (PointObj g) = Inl TypeError"
| "coords_item (Tuple t) = Inr t"

text \<open>The end of \<^verbatim>\<open>LinearRing.__new__\<close>, from \<^verbatim>\<open>len(coordinates) == 0\<close> on.\<close>

definition LinearRing_build :: "'a list list \<Rightarrow> error + 'a made" where
  "LinearRing_build coordinates =
     (if length coordinates = 0 then Inr (Fresh (LinearRing (XY [])))
      else case linearrings coordinates of
             Inl e \<Rightarrow> Inl e
           | Inr geom \<Rightarrow> if \<not> is_LinearRing geom then Inl ValueError else Inr (Fresh geom))"

text \<open>
  \<^verbatim>\<open>LinearRing.__new__(coordinates)\<close>. \<open>valid\<close> is the native validity check.
  A geometry that is not a LineString has no \<^verbatim>\<open>__array__\<close> and cannot be iterated.
\<close>

definition LinearRing_new :: "('a geometry \<Rightarrow> bool) \<Rightarrow> 'a ctor_arg \<Rightarrow> error + 'a made" where
  "LinearRing_new valid coordinates =
     (case coordinates of
        ArgNone \<Rightarrow> Inr (Fresh (LinearRing (XY [])))
      | ArgGeom g \<Rightarrow>
          if isinstance_LineString g then
            (if is_LinearRing g then Inr (Same g)
             else if \<not> valid g then Inl TopologicalError
             else case coords g of
                    Inl e \<Rightarrow> Inl e
                  | Inr cs \<Rightarrow> LinearRing_build (rows_of cs))
          else Inl TypeError
      | ArgArray rows \<Rightarrow> LinearRing_build rows
      | ArgSeq items \<Rightarrow>
          (case sequence (map coords_item items) of
             Inl e \<Rightarrow> Inl e
           | Inr rows \<Rightarrow> LinearRing_build rows))"


text \<open>
  Modelled from the spec: \<^verbatim>\<open>shapely.polygons\<close>, the native \<open>makePolygon(shell, holes)\<close>:
  ``Polygon carries one exterior ring plus zero-or-more interior (hole) rings, each itself a
  LinearRing''. The shell is a ring object or an array of coordinates, of which a ring is
  made first.
\<close>

fun ring_coords :: "'a geometry \<Rightarrow> error + 'a coord_seq" where
  "ring_coords (LinearRing cs) = Inr cs"
| "ring_coords _ = Inl TypeError"

definition polygons :: "'a geometry + 'a list list \<Rightarrow> 'a geometry list option \<Rightarrow> error + 'a geometry" where
  "polygons shell holes =
     (case (case shell of Inl g \<Rightarrow> Inr g | Inr rows \<Rightarrow> linearrings rows) of
        Inl e \<Rightarrow> Inl e
      | Inr ring \<Rightarrow>
          (case ring_coords ring of
             Inl e \<Rightarrow> Inl e
           | Inr cs \<Rightarrow>
               (case sequence (map ring_coords (case holes of None \<Rightarrow> [] | Some hs \<Rightarrow> hs)) of
                  Inl e \<Rightarrow> Inl e
                | Inr hcs \<Rightarrow> Inr (Polygon cs hcs))))"

text \<open>
  \<^verbatim>\<open>np.asarray(shell)\<close> of a sequence: a numeric array when every item is a tuple of
  numbers and all have one length; otherwise its dtype is not a number.
\<close>

fun item_tuple :: "'a seq_item \<Rightarrow> 'a list option" where
  "item_tuple (Tuple t) = Some t"
| "item_tuple (PointObj g) = None"

definition asarray_numeric :: "'a seq_item list \<Rightarrow> 'a list list option" where
  "asarray_numeric items =
     (case those (map item_tuple items) of
        None \<Rightarrow> None
      | Some rows \<Rightarrow>
          if list_all (\<lambda>r. length r = length (hd rows)) rows then Some rows else None)"

text \<open>The end of \<^verbatim>\<open>Polygon.__new__\<close>: the native call and the check of its result.\<close>

definition Polygon_build :: "'a geometry + 'a list list \<Rightarrow> 'a geometry list option \<Rightarrow> error + 'a made" where
  "Polygon_build shell holes =
     (case polygons shell holes of
        Inl e \<Rightarrow> Inl e
      | Inr geom \<Rightarrow> if \<not> is_Polygon geom then Inl ValueError else Inr (Fresh geom))"

text \<open>\<^verbatim>\<open>Polygon.__new__(shell, holes)\<close>.\<close>

definition Polygon_new ::
  "('a geometry \<Rightarrow> bool) \<Rightarrow> 'a ctor_arg \<Rightarrow> 'a ctor_arg list option \<Rightarrow> error + 'a made" where
  "Polygon_new valid shell holes =
     (if shell = ArgNone then Inr (Fresh (Polygon (XY []) []))
      else if (case shell of ArgGeom g \<Rightarrow> is_Polygon g | _ \<Rightarrow> False)
        then (case shell of ArgGeom g \<Rightarrow> Inr (Same g) | _ \<Rightarrow> Inl TypeError)
      else
        case (case holes of
                None \<Rightarrow> Inr None
              | Some hs \<Rightarrow>
                  if length hs = 0 then Inr None
                  else map_sum id (\<lambda>rs. Some (map made_geom rs))
                         (sequence (map (LinearRing_new valid) hs))) of
          Inl e \<Rightarrow> Inl e
        | Inr holes' \<Rightarrow>
            (case shell of
               ArgGeom g \<Rightarrow>
                 if \<not> is_LinearRing g then
                   (case LinearRing_new valid (ArgGeom g) of
                      Inl e \<Rightarrow> Inl e
                    | Inr r \<Rightarrow> Polygon_build (Inl (made_geom r)) holes')
                 else Polygon_build (Inl g) holes'
             | ArgArray rows \<Rightarrow>
                 if length rows = 0 then Inr (Fresh (Polygon (XY []) []))
                 else Polygon_build (Inr rows) holes'
             | ArgSeq items \<Rightarrow>
                 if length items = 0 then Inr (Fresh (Polygon (XY []) []))
                 else (case asarray_numeric items of
                         None \<Rightarrow> Inl ValueError
                       | Some rows \<Rightarrow> Polygon_build (Inr rows) holes')
             | ArgNone \<Rightarrow> Inr (Fresh (Polygon (XY []) []))))"

section \<open>Emptiness and counting\<close>

text \<open>
  Modelled from the spec: \<^verbatim>\<open>lib.count_coordinates\<close> on one geometry, the ``total number of
  coordinate tuples reachable by recursive descent through Multi*/GeometryCollection/Polygon
  structure''.
\<close>

fun count_geom :: "'a geometry \<Rightarrow> nat" where
  "count_geom (Point cs) = len_coords cs"
| "count_geom (LineString cs) = len_coords cs"
| "count_geom (LinearRing cs) = len_coords cs"
| "count_geom (Polygon shell holes) = len_coords shell + sum_list (map len_coords holes)"
| "count_geom (MultiPoint gs) = sum_list (map count_geom gs)"
| "count_geom (MultiLineString gs) = sum_list (map count_geom gs)"
| "count_geom (MultiPolygon gs) = sum_list (map count_geom gs)"
| "count_geom (GeometryCollection gs) = sum_list (map count_geom gs)"

text \<open>
  Modelled from the spec: the \<^verbatim>\<open>is_empty\<close> property, the native \<open>isEmpty\<close>: ``A Geometry
  may be the sentinel EMPTY value for its variant, carrying zero coordinates.''
\<close>

definition is_empty :: "'a geometry \<Rightarrow> bool" where
  "is_empty g = (count_geom g = 0)"

text \<open>The \<^verbatim>\<open>interiors\<close> property of polygon.py: an empty polygon has none.\<close>

definition interiors_of :: "'a geometry \<Rightarrow> error + 'a geometry list" where
  "interiors_of g = (if is_empty g then Inr [] else interiors g)"

section \<open>Orientation: \<^verbatim>\<open>force_ccw\<close>\<close>

text \<open>
  The flags of the Polygon branch:
  \<^verbatim>\<open>reverse_rings[0] = not reverse_rings[0]\<close>, then
  \<^verbatim>\<open>np.logical_not(reverse_rings)\<close> when \<open>ccw\<close>.
\<close>

definition reverse_flags :: "bool list \<Rightarrow> bool \<Rightarrow> error + bool list" where
  "reverse_flags flags ccw =
     (case flags of
        [] \<Rightarrow> Inl IndexError
      | f # rest \<Rightarrow>
          let reverse_rings = (\<not> f) # rest
          in Inr (if ccw then map Not reverse_rings else reverse_rings))"

text \<open>
  \<^verbatim>\<open>ring if reverse_ring else list(ring.coords)[::-1]\<close>: the ring object itself, or the
  list of its coordinate tuples in reverse order.
\<close>

definition pick_ring :: "'a geometry \<times> bool \<Rightarrow> error + 'a ctor_arg" where
  "pick_ring = (\<lambda>(ring, reverse_ring).
     if reverse_ring then Inr (ArgGeom ring)
     else map_sum id (\<lambda>cs. ArgSeq (map Tuple (rows_of (reversed cs)))) (coords ring))"

definition force_ccw_polygon :: "geos \<Rightarrow> real geometry \<Rightarrow> bool \<Rightarrow> error + real geometry" where
  "force_ccw_polygon env geometry ccw =
     (case exterior geometry of
        Inl e \<Rightarrow> Inl e
      | Inr ext \<Rightarrow>
     (case interiors_of geometry of
        Inl e \<Rightarrow> Inl e
      | Inr ints \<Rightarrow>
     (let rings = ext # ints in
      case is_ccw env (Batch (map Some rings)) of
        Inl e \<Rightarrow> Inl e
      | Inr (Flag b) \<Rightarrow> Inl TypeError
      | Inr (Flags flags) \<Rightarrow>
     (case reverse_flags flags ccw of
        Inl e \<Rightarrow> Inl e
      | Inr reverse_rings \<Rightarrow>
     (case sequence (map pick_ring (zip rings reverse_rings)) of
        Inl e \<Rightarrow> Inl e
      | Inr [] \<Rightarrow> Inl IndexError
      | Inr (shell # holes) \<Rightarrow>
          map_sum id made_geom (Polygon_new (is_valid env) shell (Some holes)))))))"

text \<open>
  Modelled from the spec: the constructors of MultiPolygon and GeometryCollection, which
  are not in polygon.py: ``recurse per child and rebuild the same collection variant around
  the normalized children, preserving child order and count''.

  \<^verbatim>\<open>force_ccw(geometry, ccw)\<close> on one geometry and one truth value; the decorator
  \<^verbatim>\<open>vectorize_geom\<close> applies it to each element of an array. \<^verbatim>\<open>geometry.geoms\<close> are the
  parts of a collection.
\<close>

fun force_ccw :: "geos \<Rightarrow> real geometry \<Rightarrow> bool \<Rightarrow> error + real geometry" where
  "force_ccw env (MultiPolygon gs) ccw =
     map_sum id MultiPolygon (sequence (map (\<lambda>g. force_ccw env g ccw) gs))"
| "force_ccw env (GeometryCollection gs) ccw =
     map_sum id GeometryCollection (sequence (map (\<lambda>g. force_ccw env g ccw) gs))"
| "force_ccw env (Polygon shell holes) ccw = force_ccw_polygon env (Polygon shell holes) ccw"
| "force_ccw env geometry ccw = Inr geometry"


section \<open>Arrays and coordinate buffers\<close>

text \<open>
  A float64 is a finite number or the signal value NaN. Arithmetic on the finite numbers
  is exact here.
\<close>

datatype f64 = Finite real | NaN

datatype dtype = Float64 | Int64 | Object

text \<open>
  A numpy array: its shape, its dtype and its items (\<open>flat\<close>) in row-major order. A coordinate
  buffer is an array of shape \<open>[N, 2]\<close> or \<open>[N, 3]\<close>.
\<close>

record ndarray =
  shape :: "nat list"
  dtype :: dtype
  flat :: "f64 list"

definition ndim :: "ndarray \<Rightarrow> nat" where
  "ndim a = length (shape a)"

text \<open>\<^verbatim>\<open>np.atleast_2d\<close>: a scalar becomes \<open>1 \<times> 1\<close>, a vector of length \<open>n\<close> becomes \<open>1 \<times> n\<close>.\<close>

definition atleast_2d :: "ndarray \<Rightarrow> ndarray" where
  "atleast_2d a =
     (case shape a of
        [] \<Rightarrow> a\<lparr>shape := [1, 1]\<rparr>
      | [n] \<Rightarrow> a\<lparr>shape := [1, n]\<rparr>
      | _ \<Rightarrow> a)"

text \<open>The rows of a two-dimensional array with \<open>c\<close> columns.\<close>

fun chop :: "nat \<Rightarrow> nat \<Rightarrow> 'b list \<Rightarrow> 'b list list" where
  "chop 0 c xs = []"
| "chop (Suc r) c xs = take c xs # chop r c (drop c xs)"

definition array_rows :: "ndarray \<Rightarrow> f64 list list" where
  "array_rows a = (case shape a of [r, c] \<Rightarrow> chop r c (flat a) | _ \<Rightarrow> [])"

section \<open>Coordinate access: the native part\<close>

text \<open>
  What the functions of coordinates.py take as \<open>geometry\<close>: one geometry or \<open>None\<close>, a
  Python list of these, or an array of objects. Arrays are taken flat.
\<close>

datatype 'a geom_input =
    One "'a geometry option"
  | ListOf "'a geometry option list"
  | ArrayOf "'a geometry option list"

text \<open>\<^verbatim>\<open>np.asarray(geometry, dtype=np.object_)\<close>: the elements, and the number of dimensions.\<close>

fun elements :: "'a geom_input \<Rightarrow> 'a geometry option list" where
  "elements (One g) = [g]"
| "elements (ListOf gs) = gs"
| "elements (ArrayOf gs) = gs"

fun input_ndim :: "'a geom_input \<Rightarrow> nat" where
  "input_ndim (One g) = 0"
| "input_ndim _ = 1"

fun is_ndarray :: "'a geom_input \<Rightarrow> bool" where
  "is_ndarray (ArrayOf gs) = True"
| "is_ndarray _ = False"

text \<open>
  Modelled from the spec: \<^verbatim>\<open>lib.count_coordinates\<close>. ``EMPTY geometries and a null/absent
  geometry contribute 0. A batch input sums per-element counts.''
\<close>

definition lib_count_coordinates :: "'a geometry option list \<Rightarrow> nat" where
  "lib_count_coordinates gs =
     sum_list (map (\<lambda>g. case g of None \<Rightarrow> 0 | Some g' \<Rightarrow> count_geom g') gs)"

text \<open>
  Modelled from the spec: \<^verbatim>\<open>lib.get_coordinates\<close> without the index, a ``depth-first,
  left-to-right traversal: for Point/LineString/LinearRing emits its own coordinates in
  order; for Polygon emits exterior ring coordinates followed by each interior ring's
  coordinates in ring order; for Multi*/GeometryCollection emits each child's extraction in
  child order. \<open>include_z\<close> selects tuple arity 2 or 3; when a source geometry lacks a third
  dimension but arity 3 is requested, the third component is emitted as NaN. Null entries
  in a batch are skipped.''
\<close>

fun seq_rows :: "bool \<Rightarrow> f64 coord_seq \<Rightarrow> f64 list list" where
  "seq_rows False (XY ps) = map (\<lambda>(x, y). [x, y]) ps"
| "seq_rows False (XYZ ps) = map (\<lambda>(x, y, z). [x, y]) ps"
| "seq_rows True (XY ps) = map (\<lambda>(x, y). [x, y, NaN]) ps"
| "seq_rows True (XYZ ps) = map (\<lambda>(x, y, z). [x, y, z]) ps"

fun geom_rows :: "bool \<Rightarrow> f64 geometry \<Rightarrow> f64 list list" where
  "geom_rows z (Point cs) = seq_rows z cs"
| "geom_rows z (LineString cs) = seq_rows z cs"
| "geom_rows z (LinearRing cs) = seq_rows z cs"
| "geom_rows z (Polygon shell holes) = seq_rows z shell @ concat (map (seq_rows z) holes)"
| "geom_rows z (MultiPoint gs) = concat (map (geom_rows z) gs)"
| "geom_rows z (MultiLineString gs) = concat (map (geom_rows z) gs)"
| "geom_rows z (MultiPolygon gs) = concat (map (geom_rows z) gs)"
| "geom_rows z (GeometryCollection gs) = concat (map (geom_rows z) gs)"

definition lib_get_coordinates :: "f64 geometry option list \<Rightarrow> bool \<Rightarrow> ndarray" where
  "lib_get_coordinates gs include_z =
     (let rows = concat (map (\<lambda>g. case g of None \<Rightarrow> [] | Some g' \<Rightarrow> geom_rows include_z g') gs)
      in \<lparr> shape = [length rows, if include_z then 3 else 2],
           dtype = Float64,
           flat = concat rows \<rparr>)"

text \<open>
  Modelled from the spec: \<^verbatim>\<open>lib.set_coordinates\<close>, which writes the rows of the buffer over
  the coordinates in the order of the extraction. The dimension of what is written is
  that of the docstring of \<^verbatim>\<open>set_coordinates\<close>: with two columns ``all returned geometries
  will be two-dimensional'', with three columns ``the returned geometries preserve the
  dimensionality of the input geometries''. Each function returns what it wrote and the
  rows left.
\<close>

definition put_seq :: "nat \<Rightarrow> f64 list list \<Rightarrow> f64 coord_seq \<Rightarrow> f64 coord_seq \<times> f64 list list" where
  "put_seq ncols rows cs =
     (let mine = take (len_coords cs) rows;
          rest = drop (len_coords cs) rows
      in (if ncols = 3 \<and> has_z_seq cs then XYZ (map (\<lambda>r. (r ! 0, r ! 1, r ! 2)) mine)
          else XY (map (\<lambda>r. (r ! 0, r ! 1)) mine), rest))"

text \<open>
  The native library builds every new geometry with its own constructors, and these hold
  the invariant of the data model: ``A LinearRing's coordinate sequence is closed: first
  coordinate equals last''. Rows that would leave a ring open are refused with the error
  of the native library.
\<close>

fun first_is_last :: "'a coord_seq \<Rightarrow> bool" where
  "first_is_last (XY ps) = (ps = [] \<or> hd ps = last ps)"
| "first_is_last (XYZ ps) = (ps = [] \<or> hd ps = last ps)"

definition put_ring ::
  "nat \<Rightarrow> f64 list list \<Rightarrow> f64 coord_seq \<Rightarrow> error + f64 coord_seq \<times> f64 list list" where
  "put_ring ncols rows cs =
     (case put_seq ncols rows cs of
        (cs', rest) \<Rightarrow> if first_is_last cs' then Inr (cs', rest) else Inl GEOSException)"

fun put_rings ::
  "nat \<Rightarrow> f64 list list \<Rightarrow> f64 coord_seq list \<Rightarrow> error + f64 coord_seq list \<times> f64 list list" where
  "put_rings ncols rows [] = Inr ([], rows)"
| "put_rings ncols rows (cs # css) =
     (case put_ring ncols rows cs of
        Inl e \<Rightarrow> Inl e
      | Inr (cs', rest) \<Rightarrow>
          (case put_rings ncols rest css of
             Inl e \<Rightarrow> Inl e
           | Inr (css', rest') \<Rightarrow> Inr (cs' # css', rest')))"

fun put_geom :: "nat \<Rightarrow> f64 list list \<Rightarrow> f64 geometry \<Rightarrow> error + f64 geometry \<times> f64 list list"
  and put_geoms ::
    "nat \<Rightarrow> f64 list list \<Rightarrow> f64 geometry list \<Rightarrow> error + f64 geometry list \<times> f64 list list"
where
  "put_geom ncols rows (Point cs) = Inr (map_prod Point id (put_seq ncols rows cs))"
| "put_geom ncols rows (LineString cs) = Inr (map_prod LineString id (put_seq ncols rows cs))"
| "put_geom ncols rows (LinearRing cs) = map_sum id (map_prod LinearRing id) (put_ring ncols rows cs)"
| "put_geom ncols rows (Polygon shell holes) =
     (case put_ring ncols rows shell of
        Inl e \<Rightarrow> Inl e
      | Inr (shell', rest) \<Rightarrow>
          (case put_rings ncols rest holes of
             Inl e \<Rightarrow> Inl e
           | Inr (holes', rest') \<Rightarrow> Inr (Polygon shell' holes', rest')))"
| "put_geom ncols rows (MultiPoint gs) = map_sum id (map_prod MultiPoint id) (put_geoms ncols rows gs)"
| "put_geom ncols rows (MultiLineString gs) =
     map_sum id (map_prod MultiLineString id) (put_geoms ncols rows gs)"
| "put_geom ncols rows (MultiPolygon gs) =
     map_sum id (map_prod MultiPolygon id) (put_geoms ncols rows gs)"
| "put_geom ncols rows (GeometryCollection gs) =
     map_sum id (map_prod GeometryCollection id) (put_geoms ncols rows gs)"
| "put_geoms ncols rows [] = Inr ([], rows)"
| "put_geoms ncols rows (g # gs) =
     (case put_geom ncols rows g of
        Inl e \<Rightarrow> Inl e
      | Inr (g', rest) \<Rightarrow>
          (case put_geoms ncols rest gs of
             Inl e \<Rightarrow> Inl e
           | Inr (gs', rest') \<Rightarrow> Inr (g' # gs', rest')))"

text \<open>
  The elements of the array are replaced one after the other, each as soon as its new
  geometry is built: the result is the error of the first element that could not be
  built, if any, and the array as the writer left it, with the elements before that one
  replaced already.
\<close>

fun put_elements ::
  "nat \<Rightarrow> f64 list list \<Rightarrow> f64 geometry option list \<Rightarrow> (error + unit) \<times> f64 geometry option list" where
  "put_elements ncols rows [] = (Inr (), [])"
| "put_elements ncols rows (None # gs) =
     (case put_elements ncols rows gs of (r, gs') \<Rightarrow> (r, None # gs'))"
| "put_elements ncols rows (Some g # gs) =
     (case put_geom ncols rows g of
        Inl e \<Rightarrow> (Inl e, Some g # gs)
      | Inr (g', rest) \<Rightarrow>
          (case put_elements ncols rest gs of (r, gs') \<Rightarrow> (r, Some g' # gs')))"

definition lib_set_coordinates ::
  "f64 geometry option list \<Rightarrow> ndarray \<Rightarrow> (error + unit) \<times> f64 geometry option list" where
  "lib_set_coordinates gs coordinates =
     put_elements (shape coordinates ! 1) (array_rows coordinates) gs"

section \<open>Coordinate access: coordinates.py\<close>

definition count_coordinates :: "'a geom_input \<Rightarrow> nat" where
  "count_coordinates geometry = lib_count_coordinates (elements geometry)"

definition get_coordinates :: "f64 geom_input \<Rightarrow> bool \<Rightarrow> ndarray" where
  "get_coordinates geometry include_z = lib_get_coordinates (elements geometry) include_z"

text \<open>
  What a function of coordinates.py returns for its geometry array: the one item when
  the array has no dimension and the argument was not an array, the array otherwise.
\<close>

definition unwrap :: "'a geom_input \<Rightarrow> 'a geometry option list \<Rightarrow> 'a geom_input" where
  "unwrap geometry geometry_arr =
     (if input_ndim geometry = 0 \<and> \<not> is_ndarray geometry then One (hd geometry_arr)
      else ArrayOf geometry_arr)"

text \<open>
  \<^verbatim>\<open>set_coordinates(geometry, coordinates)\<close>. The array made of the argument is the
  argument itself when that is an array already, and the write goes to it: the second
  component of the result is the caller's \<open>geometry\<close> after the call, also when the native
  writer raised.
\<close>

definition set_coordinates ::
  "f64 geom_input \<Rightarrow> ndarray \<Rightarrow> (error + f64 geom_input) \<times> f64 geom_input" where
  "set_coordinates geometry coordinates0 =
     (let geometry_arr = elements geometry;
          coordinates = (atleast_2d coordinates0)\<lparr>dtype := Float64\<rparr>
      in if ndim coordinates \<noteq> 2 then (Inl ValueError, geometry)
         else
           let n_coords = lib_count_coordinates geometry_arr
           in if shape coordinates ! 0 \<noteq> n_coords \<or> shape coordinates ! 1 \<notin> {2, 3}
              then (Inl ValueError, geometry)
              else
                (case lib_set_coordinates geometry_arr coordinates of
                   (Inl e, written) \<Rightarrow>
                     (Inl e, if is_ndarray geometry then ArrayOf written else geometry)
                 | (Inr u, written) \<Rightarrow>
                     (Inr (unwrap geometry written),
                      if is_ndarray geometry then ArrayOf written else geometry)))"

section \<open>Python values and the mapping function\<close>

text \<open>
  What a mapping function can be given and can return: \<open>None\<close>, a float, an int, an
  array, a tuple or a list.
\<close>

datatype pyval =
    PyNone
  | PyFloat f64
  | PyInt int
  | PyArr ndarray
  | PyTuple "pyval list"
  | PyList "pyval list"

text \<open>
  A mapping function is called with positional arguments; it returns or raises, and it
  may change a state of its own.
\<close>

type_synonym 's transformation = "pyval list \<Rightarrow> 's \<Rightarrow> (error + pyval) \<times> 's"

text \<open>Calls in sequence, as in a list comprehension: the first error ends them.\<close>

fun call_each :: "('b \<Rightarrow> 's \<Rightarrow> (error + 'c) \<times> 's) \<Rightarrow> 'b list \<Rightarrow> 's \<Rightarrow> (error + 'c list) \<times> 's" where
  "call_each f [] s = (Inr [], s)"
| "call_each f (x # xs) s =
     (case f x s of
        (Inl e, s') \<Rightarrow> (Inl e, s')
      | (Inr v, s') \<Rightarrow>
          (case call_each f xs s' of
             (Inl e, s'') \<Rightarrow> (Inl e, s'')
           | (Inr vs, s'') \<Rightarrow> (Inr (v # vs), s'')))"

text \<open>
  \<^verbatim>\<open>np.array(v)\<close>. A sequence becomes an array with one more dimension when its items
  have one shape, and is refused as inhomogeneous otherwise. The dtype of the result is
  float64 unless an item is an object or all items are ints.
\<close>

definition promote :: "dtype list \<Rightarrow> dtype" where
  "promote ds =
     (if Object \<in> set ds then Object
      else if ds \<noteq> [] \<and> list_all (\<lambda>d. d = Int64) ds then Int64
      else Float64)"

definition stack :: "(error + ndarray) list \<Rightarrow> error + ndarray" where
  "stack rs =
     (case sequence rs of
        Inl e \<Rightarrow> Inl e
      | Inr [] \<Rightarrow> Inr \<lparr> shape = [0], dtype = Float64, flat = [] \<rparr>
      | Inr (a # as) \<Rightarrow>
          if list_all (\<lambda>b. shape b = shape a) as
          then Inr \<lparr> shape = Suc (length as) # shape a,
                     dtype = promote (map dtype (a # as)),
                     flat = concat (map flat (a # as)) \<rparr>
          else Inl ValueError)"

fun np_array :: "pyval \<Rightarrow> error + ndarray" where
  "np_array PyNone = Inr \<lparr> shape = [], dtype = Object, flat = [] \<rparr>"
| "np_array (PyFloat x) = Inr \<lparr> shape = [], dtype = Float64, flat = [x] \<rparr>"
| "np_array (PyInt i) = Inr \<lparr> shape = [], dtype = Int64, flat = [Finite (of_int i)] \<rparr>"
| "np_array (PyArr a) = Inr a"
| "np_array (PyTuple vs) = stack (map np_array vs)"
| "np_array (PyList vs) = stack (map np_array vs)"

text \<open>
  The attribute \<^verbatim>\<open>.T\<close>: the transpose of a two-dimensional array; an array of fewer
  dimensions is left as it is. Of an array of more dimensions only the shape is followed.
\<close>

definition T :: "ndarray \<Rightarrow> ndarray" where
  "T a =
     (case shape a of
        [r, c] \<Rightarrow> \<lparr> shape = [c, r], dtype = dtype a,
                    flat = concat (map (\<lambda>j. map (\<lambda>row. row ! j) (chop r c (flat a))) [0..<c]) \<rparr>
      | _ \<Rightarrow> a\<lparr>shape := rev (shape a)\<rparr>)"

text \<open>
  Iterating over a two-dimensional array gives its rows: \<^verbatim>\<open>*coords.T\<close> passes the
  columns of the array as arrays, \<^verbatim>\<open>*c\<close> passes the numbers of one row.
\<close>

definition axes :: "ndarray \<Rightarrow> pyval list" where
  "axes arr =
     map (\<lambda>col. PyArr \<lparr> shape = [length col], dtype = dtype arr, flat = col \<rparr>)
       (array_rows (T arr))"

definition scalars :: "f64 list \<Rightarrow> pyval list" where
  "scalars c = map PyFloat c"

section \<open>The transform pipeline: coordinates.py\<close>

text \<open>
  \<^verbatim>\<open>_transform(geometry, transformation, include_z)\<close>; here \<open>transformation\<close> takes the
  array of coordinates.
\<close>

definition private_transform ::
  "f64 geom_input \<Rightarrow> (ndarray \<Rightarrow> 's \<Rightarrow> (error + pyval) \<times> 's) \<Rightarrow> bool \<Rightarrow> 's
     \<Rightarrow> (error + f64 geom_input) \<times> 's" where
  "private_transform geometry transformation include_z s =
     (let geometry_arr = elements geometry;
          coordinates = lib_get_coordinates geometry_arr include_z
      in case transformation coordinates s of
           (Inl e, s') \<Rightarrow> (Inl e, s')
         | (Inr new_coordinates, s') \<Rightarrow>
             (case new_coordinates of
                PyArr new \<Rightarrow>
                  if dtype new \<noteq> Float64 then (Inl ValueError, s')
                  else if shape new \<noteq> shape coordinates then (Inl ValueError, s')
                  else (case lib_set_coordinates geometry_arr new of
                          (Inl e, written) \<Rightarrow> (Inl e, s')
                        | (Inr u, written) \<Rightarrow> (Inr (unwrap geometry written), s'))
              | _ \<Rightarrow> (Inl ValueError, s')))"

text \<open>
  The two wrappers of \<^verbatim>\<open>_transform_multi_vec\<close>:
  \<^verbatim>\<open>lambda coords: np.array(transformation(*coords.T)).T\<close> and
  \<^verbatim>\<open>lambda coords: np.array([transformation(*c) for c in coords])\<close>.
\<close>

definition whole_axes :: "'s transformation \<Rightarrow> ndarray \<Rightarrow> 's \<Rightarrow> (error + pyval) \<times> 's" where
  "whole_axes transformation arr s =
     (case transformation (axes arr) s of
        (Inl e, s') \<Rightarrow> (Inl e, s')
      | (Inr v, s') \<Rightarrow> (map_sum id (\<lambda>a. PyArr (T a)) (np_array v), s'))"

definition per_coordinate :: "'s transformation \<Rightarrow> ndarray \<Rightarrow> 's \<Rightarrow> (error + pyval) \<times> 's" where
  "per_coordinate transformation arr s =
     (case call_each (\<lambda>c. transformation (scalars c)) (array_rows arr) s of
        (Inl e, s') \<Rightarrow> (Inl e, s')
      | (Inr vs, s') \<Rightarrow> (map_sum id PyArr (np_array (PyList vs)), s'))"

text \<open>
  \<^verbatim>\<open>_transform_multi_vec\<close>: the first attempt inside \<^verbatim>\<open>try\<close>, the second in
  \<^verbatim>\<open>except Exception\<close>, whatever was raised.
\<close>

definition private_transform_multi_vec ::
  "f64 geom_input \<Rightarrow> 's transformation \<Rightarrow> bool \<Rightarrow> 's \<Rightarrow> (error + f64 geom_input) \<times> 's" where
  "private_transform_multi_vec geometry transformation include_z s =
     (case private_transform geometry (whole_axes transformation) include_z s of
        (Inr result, s') \<Rightarrow> (Inr result, s')
      | (Inl e, s') \<Rightarrow> private_transform geometry (per_coordinate transformation) include_z s')"

section \<open>Rebuilding geometries: coordinates.py\<close>

text \<open>
  A mapping function called with the array of coordinates as its one argument, as
  \<^verbatim>\<open>transform\<close> does when \<open>single_vec\<close> is true.
\<close>

definition single_arg :: "'s transformation \<Rightarrow> ndarray \<Rightarrow> 's \<Rightarrow> (error + pyval) \<times> 's" where
  "single_arg transformation arr s = transformation [PyArr arr] s"

text \<open>
  The second wrapper of \<^verbatim>\<open>_transform2_multi_vec\<close>:
  \<^verbatim>\<open>lambda coords: [transformation(*c) for c in coords]\<close>, a list and not an array.
\<close>

definition per_coordinate_list :: "'s transformation \<Rightarrow> ndarray \<Rightarrow> 's \<Rightarrow> (error + pyval) \<times> 's" where
  "per_coordinate_list transformation arr s =
     (case call_each (\<lambda>c. transformation (scalars c)) (array_rows arr) s of
        (Inl e, s') \<Rightarrow> (Inl e, s')
      | (Inr vs, s') \<Rightarrow> (Inr (PyList vs), s'))"

text \<open>
  How a constructor reads the value a mapping function returned: \<open>None\<close>, a numeric
  array of two dimensions, or a sequence of coordinate tuples.
\<close>

fun py_number :: "pyval \<Rightarrow> error + f64" where
  "py_number (PyFloat x) = Inr x"
| "py_number (PyInt i) = Inr (Finite (of_int i))"
| "py_number _ = Inl TypeError"

fun py_item :: "pyval \<Rightarrow> error + f64 seq_item" where
  "py_item (PyTuple vs) = map_sum id Tuple (sequence (map py_number vs))"
| "py_item (PyList vs) = map_sum id Tuple (sequence (map py_number vs))"
| "py_item (PyArr a) = (if ndim a = 1 then Inr (Tuple (flat a)) else Inl ValueError)"
| "py_item _ = Inl TypeError"

fun py_arg :: "pyval \<Rightarrow> error + f64 ctor_arg" where
  "py_arg PyNone = Inr ArgNone"
| "py_arg (PyArr a) =
     (if dtype a \<noteq> Object \<and> ndim a = 2 then Inr (ArgArray (array_rows a)) else Inl ValueError)"
| "py_arg (PyTuple vs) = map_sum id ArgSeq (sequence (map py_item vs))"
| "py_arg (PyList vs) = map_sum id ArgSeq (sequence (map py_item vs))"
| "py_arg _ = Inl TypeError"

text \<open>
  Modelled from the spec: the constructors of Point and LineString (point.py and
  linestring.py), the native \<open>makePoint\<close> and \<open>makeLineString\<close>: ``construction of each
  variant from component rings/points/children''. A Point has at most one coordinate.
\<close>

definition arg_rows :: "'a ctor_arg \<Rightarrow> error + 'a list list" where
  "arg_rows arg =
     (case arg of
        ArgNone \<Rightarrow> Inr []
      | ArgGeom g \<Rightarrow> map_sum id rows_of (coords g)
      | ArgArray rows \<Rightarrow> Inr rows
      | ArgSeq its \<Rightarrow> sequence (map coords_item its))"

definition LineString_new :: "'a ctor_arg \<Rightarrow> error + 'a geometry" where
  "LineString_new arg =
     (case arg_rows arg of
        Inl e \<Rightarrow> Inl e
      | Inr rows \<Rightarrow> map_sum id LineString (of_rows rows))"

definition Point_new :: "'a ctor_arg \<Rightarrow> error + 'a geometry" where
  "Point_new arg =
     (case arg_rows arg of
        Inl e \<Rightarrow> Inl e
      | Inr rows \<Rightarrow> if 1 < length rows then Inl ValueError else map_sum id Point (of_rows rows))"

text \<open>\<^verbatim>\<open>type(geometry)(value)\<close> for a Point, LineString or LinearRing.\<close>

definition construct_like ::
  "(f64 geometry \<Rightarrow> bool) \<Rightarrow> f64 geometry \<Rightarrow> pyval \<Rightarrow> error + f64 geometry" where
  "construct_like valid geometry v =
     (case py_arg v of
        Inl e \<Rightarrow> Inl e
      | Inr arg \<Rightarrow>
          (case geometry of
             Point _ \<Rightarrow> Point_new arg
           | LineString _ \<Rightarrow> LineString_new arg
           | LinearRing _ \<Rightarrow> map_sum id made_geom (LinearRing_new valid arg)
           | _ \<Rightarrow> Inl TypeError))"

text \<open>One ring of a polygon: \<^verbatim>\<open>type(ring)(transformation(get_coordinates(ring, include_z)))\<close>.\<close>

definition rebuild_ring ::
  "(f64 geometry \<Rightarrow> bool) \<Rightarrow> (ndarray \<Rightarrow> 's \<Rightarrow> (error + pyval) \<times> 's) \<Rightarrow> bool \<Rightarrow> f64 geometry
     \<Rightarrow> 's \<Rightarrow> (error + f64 geometry) \<times> 's" where
  "rebuild_ring valid transformation include_z ring s =
     (case transformation (get_coordinates (One (Some ring)) include_z) s of
        (Inl e, s') \<Rightarrow> (Inl e, s')
      | (Inr v, s') \<Rightarrow> (construct_like valid ring v, s'))"

text \<open>
  \<^verbatim>\<open>transform_rebuild_single_part\<close>. For a geometry of another type the Python function
  ends without a \<^verbatim>\<open>return\<close>: its value is \<open>None\<close>.
\<close>

definition transform_rebuild_single_part ::
  "(f64 geometry \<Rightarrow> bool) \<Rightarrow> f64 geometry \<Rightarrow> (ndarray \<Rightarrow> 's \<Rightarrow> (error + pyval) \<times> 's) \<Rightarrow> bool
     \<Rightarrow> 's \<Rightarrow> (error + f64 geometry option) \<times> 's" where
  "transform_rebuild_single_part valid geometry transformation include_z s =
     (if geom_type geometry \<in> set [''Point'', ''LineString'', ''LinearRing''] then
        (case rebuild_ring valid transformation include_z geometry s of
           (Inl e, s') \<Rightarrow> (Inl e, s')
         | (Inr g, s') \<Rightarrow> (Inr (Some g), s'))
      else if geom_type geometry = ''Polygon'' then
        (case exterior geometry of
           Inl e \<Rightarrow> (Inl e, s)
         | Inr ext \<Rightarrow>
        (case rebuild_ring valid transformation include_z ext s of
           (Inl e, s1) \<Rightarrow> (Inl e, s1)
         | (Inr shell, s1) \<Rightarrow>
        (case interiors_of geometry of
           Inl e \<Rightarrow> (Inl e, s1)
         | Inr rings \<Rightarrow>
        (case call_each (rebuild_ring valid transformation include_z) rings s1 of
           (Inl e, s2) \<Rightarrow> (Inl e, s2)
         | (Inr holes, s2) \<Rightarrow>
             (map_sum id (\<lambda>m. Some (made_geom m))
                (Polygon_new valid (ArgGeom shell) (Some (map ArgGeom holes))), s2)))))
      else (Inr None, s))"

text \<open>
  Modelled from the spec: the constructors of the collections, which ``re-assemble the
  same collection variant around the transformed children''.
\<close>

fun is_collection :: "'a geometry \<Rightarrow> bool" where
  "is_collection (MultiPoint _) = True"
| "is_collection (MultiLineString _) = True"
| "is_collection (MultiPolygon _) = True"
| "is_collection (GeometryCollection _) = True"
| "is_collection _ = False"

fun collection_like :: "'a geometry \<Rightarrow> 'a geometry list \<Rightarrow> 'a geometry" where
  "collection_like (MultiPoint _) parts = MultiPoint parts"
| "collection_like (MultiLineString _) parts = MultiLineString parts"
| "collection_like (MultiPolygon _) parts = MultiPolygon parts"
| "collection_like _ parts = GeometryCollection parts"

text \<open>
  \<^verbatim>\<open>type(geometry)([... for part in geometry.geoms])\<close>: the collection around the
  results for the parts, or the error that ended the list comprehension.
\<close>

definition assemble_like ::
  "f64 geometry \<Rightarrow> (error + f64 geometry option list) \<times> 's \<Rightarrow> (error + f64 geometry option) \<times> 's" where
  "assemble_like geometry r =
     (case r of
        (Inl e, s') \<Rightarrow> (Inl e, s')
      | (Inr parts, s') \<Rightarrow>
          (case those parts of
             None \<Rightarrow> (Inl TypeError, s')
           | Some ps \<Rightarrow> (Inr (Some (collection_like geometry ps)), s')))"

text \<open>
  \<^verbatim>\<open>_transform2\<close> on a geometry, and on the parts of a collection in their order. The
  mapping function is given the array of coordinates.
\<close>

fun private_transform2 ::
  "(f64 geometry \<Rightarrow> bool) \<Rightarrow> f64 geometry \<Rightarrow> 's transformation \<Rightarrow> bool
     \<Rightarrow> 's \<Rightarrow> (error + f64 geometry option) \<times> 's"
and private_transform2_parts ::
  "(f64 geometry \<Rightarrow> bool) \<Rightarrow> f64 geometry list \<Rightarrow> 's transformation \<Rightarrow> bool
     \<Rightarrow> 's \<Rightarrow> (error + f64 geometry option list) \<times> 's"
where
  "private_transform2 valid geometry transformation include_z s =
     (if is_empty geometry then (Inr (Some geometry), s)
      else if geom_type geometry \<in> set [''Point'', ''LineString'', ''LinearRing'', ''Polygon''] then
        transform_rebuild_single_part valid geometry (single_arg transformation) include_z s
      else
        (case geometry of
           MultiPoint gs \<Rightarrow>
             assemble_like geometry (private_transform2_parts valid gs transformation include_z s)
         | MultiLineString gs \<Rightarrow>
             assemble_like geometry (private_transform2_parts valid gs transformation include_z s)
         | MultiPolygon gs \<Rightarrow>
             assemble_like geometry (private_transform2_parts valid gs transformation include_z s)
         | GeometryCollection gs \<Rightarrow>
             assemble_like geometry (private_transform2_parts valid gs transformation include_z s)
         | _ \<Rightarrow> (Inl GeometryTypeError, s)))"
| "private_transform2_parts valid [] transformation include_z s = (Inr [], s)"
| "private_transform2_parts valid (g # gs) transformation include_z s =
     (case private_transform2 valid g transformation include_z s of
        (Inl e, s') \<Rightarrow> (Inl e, s')
      | (Inr p, s') \<Rightarrow>
          (case private_transform2_parts valid gs transformation include_z s' of
             (Inl e, s'') \<Rightarrow> (Inl e, s'')
           | (Inr ps, s'') \<Rightarrow> (Inr (p # ps), s'')))"

text \<open>
  The single parts of \<^verbatim>\<open>_transform2_multi_vec\<close>: the first attempt inside \<^verbatim>\<open>try\<close>,
  the second in \<^verbatim>\<open>except Exception\<close>.
\<close>

definition rebuild_multi_vec ::
  "(f64 geometry \<Rightarrow> bool) \<Rightarrow> f64 geometry \<Rightarrow> 's transformation \<Rightarrow> bool
     \<Rightarrow> 's \<Rightarrow> (error + f64 geometry option) \<times> 's" where
  "rebuild_multi_vec valid geometry transformation include_z s =
     (case transform_rebuild_single_part valid geometry (whole_axes transformation) include_z s of
        (Inr result, s') \<Rightarrow> (Inr result, s')
      | (Inl e, s') \<Rightarrow>
          transform_rebuild_single_part valid geometry (per_coordinate_list transformation)
            include_z s')"

fun private_transform2_multi_vec ::
  "(f64 geometry \<Rightarrow> bool) \<Rightarrow> f64 geometry \<Rightarrow> 's transformation \<Rightarrow> bool
     \<Rightarrow> 's \<Rightarrow> (error + f64 geometry option) \<times> 's"
and private_transform2_multi_vec_parts ::
  "(f64 geometry \<Rightarrow> bool) \<Rightarrow> f64 geometry list \<Rightarrow> 's transformation \<Rightarrow> bool
     \<Rightarrow> 's \<Rightarrow> (error + f64 geometry option list) \<times> 's"
where
  "private_transform2_multi_vec valid geometry transformation include_z s =
     (if is_empty geometry then (Inr (Some geometry), s)
      else if geom_type geometry \<in> set [''Point'', ''LineString'', ''LinearRing'', ''Polygon''] then
        rebuild_multi_vec valid geometry transformation include_z s
      else
        (case geometry of
           MultiPoint gs \<Rightarrow>
             assemble_like geometry
               (private_transform2_multi_vec_parts valid gs transformation include_z s)
         | MultiLineString gs \<Rightarrow>
             assemble_like geometry
               (private_transform2_multi_vec_parts valid gs transformation include_z s)
         | MultiPolygon gs \<Rightarrow>
             assemble_like geometry
               (private_transform2_multi_vec_parts valid gs transformation include_z s)
         | GeometryCollection gs \<Rightarrow>
             assemble_like geometry
               (private_transform2_multi_vec_parts valid gs transformation include_z s)
         | _ \<Rightarrow> (Inl GeometryTypeError, s)))"
| "private_transform2_multi_vec_parts valid [] transformation include_z s = (Inr [], s)"
| "private_transform2_multi_vec_parts valid (g # gs) transformation include_z s =
     (case private_transform2_multi_vec valid g transformation include_z s of
        (Inl e, s') \<Rightarrow> (Inl e, s')
      | (Inr p, s') \<Rightarrow>
          (case private_transform2_multi_vec_parts valid gs transformation include_z s' of
             (Inl e, s'') \<Rightarrow> (Inl e, s'')
           | (Inr ps, s'') \<Rightarrow> (Inr (p # ps), s'')))"

section \<open>The entry point \<^verbatim>\<open>transform\<close>\<close>

text \<open>
  The parameter \<open>include_z\<close> is a bool or an int. After its resolution it is one truth
  value or an array of them.
\<close>

datatype include_z = IZBool bool | IZInt int

fun truth :: "include_z \<Rightarrow> bool" where
  "truth (IZBool b) = b"
| "truth (IZInt i) = (i \<noteq> 0)"

datatype resolved_z = ZScalar bool | ZArray "bool list"

text \<open>
  Modelled from the spec: \<^verbatim>\<open>shapely.get_coordinate_dimension\<close>, from the ``has-Z flag'' of
  the data model: 3 for a geometry with a third dimension, 2 without, and -1 for \<open>None\<close>.
  On an array it answers element by element.
\<close>

fun has_z :: "'a geometry \<Rightarrow> bool" where
  "has_z (Point cs) = has_z_seq cs"
| "has_z (LineString cs) = has_z_seq cs"
| "has_z (LinearRing cs) = has_z_seq cs"
| "has_z (Polygon shell holes) = has_z_seq shell"
| "has_z (MultiPoint gs) = list_ex has_z gs"
| "has_z (MultiLineString gs) = list_ex has_z gs"
| "has_z (MultiPolygon gs) = list_ex has_z gs"
| "has_z (GeometryCollection gs) = list_ex has_z gs"

definition get_coordinate_dimension :: "'a geometry option \<Rightarrow> int" where
  "get_coordinate_dimension g =
     (case g of None \<Rightarrow> - 1 | Some g' \<Rightarrow> if has_z g' then 3 else 2)"

text \<open>
  The first two lines of \<^verbatim>\<open>transform\<close>:
  \<^verbatim>\<open>if include_z == -1: include_z = shapely.get_coordinate_dimension(geometry) == 3\<close>.
\<close>

definition resolve_include_z :: "'a geom_input \<Rightarrow> include_z \<Rightarrow> resolved_z" where
  "resolve_include_z geometry include_z =
     (if include_z = IZInt (- 1) then
        (case geometry of
           One g \<Rightarrow> ZScalar (get_coordinate_dimension g = 3)
         | _ \<Rightarrow> ZArray (map (\<lambda>g. get_coordinate_dimension g = 3) (elements geometry)))
      else ZScalar (truth include_z))"

text \<open>
  \<^verbatim>\<open>np.frompyfunc(transform_wrapper, 3, 1)(geometry, transformation, include_z)\<close>: the
  wrapper is called on each element with the value of \<open>include_z\<close> at its place, one value
  standing for all places; the results make an array, or are the one result when the
  geometry is not a sequence. An array of values of \<open>include_z\<close> comes from the geometry
  and has its length.
\<close>

definition broadcast_z :: "resolved_z \<Rightarrow> nat \<Rightarrow> error + bool list" where
  "broadcast_z include_z n =
     (case include_z of
        ZScalar b \<Rightarrow> Inr (replicate n b)
      | ZArray bs \<Rightarrow> if length bs = n then Inr bs else Inl ValueError)"

definition vectorized ::
  "(f64 geometry option \<Rightarrow> bool \<Rightarrow> 's \<Rightarrow> (error + f64 geometry option) \<times> 's)
     \<Rightarrow> f64 geom_input \<Rightarrow> resolved_z \<Rightarrow> 's \<Rightarrow> (error + f64 geom_input) \<times> 's" where
  "vectorized wrapper geometry include_z s =
     (case broadcast_z include_z (length (elements geometry)) of
        Inl e \<Rightarrow> (Inl e, s)
      | Inr bs \<Rightarrow>
          (case call_each (\<lambda>(g, b). wrapper g b) (zip (elements geometry) bs) s of
             (Inl e, s') \<Rightarrow> (Inl e, s')
           | (Inr rs, s') \<Rightarrow>
               (Inr (if input_ndim geometry = 0 then One (hd rs) else ArrayOf rs), s')))"

text \<open>The four wrappers as \<^verbatim>\<open>transform\<close> calls them on one element.\<close>

fun the_item :: "'a geom_input \<Rightarrow> 'a geometry option" where
  "the_item (One g) = g"
| "the_item _ = None"

definition on_element ::
  "(f64 geom_input \<Rightarrow> 's \<Rightarrow> (error + f64 geom_input) \<times> 's)
     \<Rightarrow> f64 geometry option \<Rightarrow> 's \<Rightarrow> (error + f64 geometry option) \<times> 's" where
  "on_element wrapper g s =
     (case wrapper (One g) s of
        (Inl e, s') \<Rightarrow> (Inl e, s')
      | (Inr r, s') \<Rightarrow> (Inr (the_item r), s'))"

definition on_geometry ::
  "(f64 geometry \<Rightarrow> 's \<Rightarrow> (error + f64 geometry option) \<times> 's)
     \<Rightarrow> f64 geometry option \<Rightarrow> 's \<Rightarrow> (error + f64 geometry option) \<times> 's" where
  "on_geometry wrapper g s =
     (case g of None \<Rightarrow> (Inl AttributeError, s) | Some g' \<Rightarrow> wrapper g' s)"

text \<open>\<^verbatim>\<open>transform(geometry, transformation, include_z, single_vec, rebuild)\<close>.\<close>

definition transform ::
  "(f64 geometry \<Rightarrow> bool) \<Rightarrow> f64 geom_input \<Rightarrow> 's transformation \<Rightarrow> include_z \<Rightarrow> bool \<Rightarrow> bool
     \<Rightarrow> 's \<Rightarrow> (error + f64 geom_input) \<times> 's" where
  "transform valid geometry transformation include_z0 single_vec rebuild s =
     (let include_z = resolve_include_z geometry include_z0 in
      if rebuild then
        (let transform_wrapper =
               (\<lambda>g b. on_geometry (\<lambda>g'. if single_vec
                          then private_transform2 valid g' transformation b
                          else private_transform2_multi_vec valid g' transformation b) g);
             vectorize = (case geometry of One (Some g) \<Rightarrow> False | _ \<Rightarrow> True)
         in if vectorize then vectorized transform_wrapper geometry include_z s
            else (case include_z of
                    ZScalar b \<Rightarrow>
                      (case transform_wrapper (the_item geometry) b s of
                         (Inl e, s') \<Rightarrow> (Inl e, s')
                       | (Inr r, s') \<Rightarrow> (Inr (One r), s'))
                  | ZArray bs \<Rightarrow> (Inl TypeError, s)))
      else
        (let transform_wrapper =
               (\<lambda>g b. if single_vec then private_transform g (single_arg transformation) b
                       else private_transform_multi_vec g transformation b)
         in case include_z of
              ZScalar b \<Rightarrow> transform_wrapper geometry b s
            | ZArray bs \<Rightarrow>
                (case bs of
                   [] \<Rightarrow> (Inl IndexError, s)
                 | b0 # _ \<Rightarrow>
                     if list_all (\<lambda>b. b = b0) bs then transform_wrapper geometry b0 s
                     else vectorized (\<lambda>g b. on_element (\<lambda>g'. transform_wrapper g' b) g)
                            geometry include_z s)))"

section \<open>Notions of the specification\<close>

text \<open>
  The summation of the specification, for ring vertices \<open>v\<^sub>0 \<dots> v\<^sub>n\<^sub>-\<^sub>1\<close>: the sum of
  \<open>x\<^sub>i * (y\<^sub>i\<^sub>+\<^sub>1 - y\<^sub>i\<^sub>-\<^sub>1)\<close> over \<open>i = 1 \<dots> n - 1\<close>, where the successor of the last
  vertex is \<open>v\<^sub>1\<close> (the ring is closed, so \<open>v\<^sub>n\<^sub>-\<^sub>1\<close> is \<open>v\<^sub>0\<close> again) and the predecessor
  of \<open>v\<^sub>1\<close> is \<open>v\<^sub>0\<close>.
\<close>

definition shoelace :: "(real \<times> real) list \<Rightarrow> real" where
  "shoelace vs =
     (\<Sum>i = 1..<length vs.
        fst (vs ! i) * (snd (vs ! (if i + 1 < length vs then i + 1 else 1)) - snd (vs ! (i - 1))))"

text \<open>A closed ring: at least two coordinates, the first equal to the last.\<close>

fun closed_ring :: "'a coord_seq \<Rightarrow> bool" where
  "closed_ring (XY ps) = (2 \<le> length ps \<and> hd ps = last ps)"
| "closed_ring (XYZ ps) = (2 \<le> length ps \<and> hd ps = last ps)"

text \<open>A ring as \<^verbatim>\<open>force_ccw\<close> leaves it: kept, or with its points in reverse order.\<close>

definition kept_or_reversed :: "bool \<Rightarrow> 'a coord_seq \<Rightarrow> 'a coord_seq" where
  "kept_or_reversed keep cs = (if keep then cs else reversed cs)"

text \<open>What \<^verbatim>\<open>force_ccw\<close> hands to the constructor for a ring with a given flag.\<close>

definition ring_arg :: "bool \<Rightarrow> 'a coord_seq \<Rightarrow> 'a ctor_arg" where
  "ring_arg keep cs =
     (if keep then ArgGeom (LinearRing cs) else ArgSeq (map Tuple (rows_of (reversed cs))))"

fun ring_args :: "bool list \<Rightarrow> 'a coord_seq list \<Rightarrow> 'a ctor_arg list" where
  "ring_args (f # fs) (c # cs) = ring_arg f c # ring_args fs cs"
| "ring_args _ _ = []"

fun kept_or_reversed_all :: "bool list \<Rightarrow> 'a coord_seq list \<Rightarrow> 'a coord_seq list" where
  "kept_or_reversed_all (f # fs) (c # cs) = kept_or_reversed f c # kept_or_reversed_all fs cs"
| "kept_or_reversed_all _ _ = []"

text \<open>
  Whether one element of a batch is three-dimensional, and the wrappers of \<^verbatim>\<open>transform\<close>
  for the two values of \<open>single_vec\<close>.
\<close>

definition own_z :: "'a geometry option \<Rightarrow> bool" where
  "own_z g = (get_coordinate_dimension g = 3)"

definition wrapper_for ::
  "'s transformation \<Rightarrow> bool \<Rightarrow> f64 geom_input \<Rightarrow> bool \<Rightarrow> 's \<Rightarrow> (error + f64 geom_input) \<times> 's" where
  "wrapper_for f single_vec g b =
     (if single_vec then private_transform g (single_arg f) b
      else private_transform_multi_vec g f b)"

definition rebuild_wrapper_for ::
  "(f64 geometry \<Rightarrow> bool) \<Rightarrow> 's transformation \<Rightarrow> bool \<Rightarrow> f64 geometry \<Rightarrow> bool
     \<Rightarrow> 's \<Rightarrow> (error + f64 geometry option) \<times> 's" where
  "rebuild_wrapper_for valid f single_vec g b =
     (if single_vec then private_transform2 valid g f b
      else private_transform2_multi_vec valid g f b)"

text \<open>The results of calls on the elements of a batch, as an array.\<close>

definition as_array ::
  "(error + f64 geometry option list) \<times> 's \<Rightarrow> (error + f64 geom_input) \<times> 's" where
  "as_array r = (case r of (Inl e, s') \<Rightarrow> (Inl e, s') | (Inr rs, s') \<Rightarrow> (Inr (ArrayOf rs), s'))"

section \<open>Example inputs\<close>

text \<open>
  The square of the specification's scenario, clockwise, and the same square with a
  third coordinate; a larger clockwise square with a counter-clockwise hole.
\<close>

definition square_cw :: "real coord_seq" where
  "square_cw = XY [(0, 0), (0, 1), (1, 1), (1, 0), (0, 0)]"

definition square_cw_z :: "real coord_seq" where
  "square_cw_z = XYZ [(0, 0, 5), (0, 1, 6), (1, 1, 7), (1, 0, 8), (0, 0, 5)]"

definition big_square_cw :: "real coord_seq" where
  "big_square_cw = XY [(0, 0), (0, 4), (4, 4), (4, 0), (0, 0)]"

definition hole_ccw :: "real coord_seq" where
  "hole_ccw = XY [(1, 1), (2, 1), (2, 2), (1, 2), (1, 1)]"

text \<open>An installation whose native library is older than 3.7.0: the fallback is in use.\<close>

definition reference_geos :: geos where
  "reference_geos = \<lparr> geos_version = (3, 6, 0),
                       is_ccw_geos_3_7 = (\<lambda>g. Inl NotImplementedError),
                       is_valid = (\<lambda>g. True) \<rparr>"

text \<open>
  A batch of a point and a line, with three coordinates in all; a buffer of three rows
  and one of two rows.
\<close>

definition point_and_line :: "f64 geom_input" where
  "point_and_line =
     ArrayOf [Some (Point (XY [(Finite 0, Finite 0)])),
              Some (LineString (XY [(Finite 0, Finite 0), (Finite 0, Finite 0)]))]"

definition buffer_3x2 :: ndarray where
  "buffer_3x2 = \<lparr> shape = [3, 2], dtype = Float64,
                  flat = [Finite 1, Finite 2, Finite 3, Finite 4, Finite 5, Finite 6] \<rparr>"

text \<open>
  An array of a point and a ring of four coordinates, and a buffer of five rows whose
  last row is not the second one: written over the ring, it leaves it open.
\<close>

definition point_and_ring :: "f64 geom_input" where
  "point_and_ring =
     ArrayOf [Some (Point (XY [(Finite 0, Finite 0)])),
              Some (LinearRing (XY [(Finite 0, Finite 0), (Finite 1, Finite 0),
                                    (Finite 1, Finite 1), (Finite 0, Finite 0)]))]"

definition buffer_5x2_open :: ndarray where
  "buffer_5x2_open = \<lparr> shape = [5, 2], dtype = Float64,
                       flat = [Finite 9, Finite 9,
                               Finite 0, Finite 0, Finite 1, Finite 0, Finite 1, Finite 1,
                               Finite 5, Finite 5] \<rparr>"

definition buffer_2x2 :: ndarray where
  "buffer_2x2 = \<lparr> shape = [2, 2], dtype = Float64,
                  flat = [Finite 1, Finite 2, Finite 3, Finite 4] \<rparr>"

text \<open>
  A mapping function in the manner of
  \<^verbatim>\<open>lambda x, y: (float(np.sum(x)), float(np.sum(y)))\<close>: of an array it returns the sum,
  of a number the number. Its state counts its calls.
\<close>

fun f64_add :: "f64 \<Rightarrow> f64 \<Rightarrow> f64" where
  "f64_add (Finite a) (Finite b) = Finite (a + b)"
| "f64_add _ _ = NaN"

fun total :: "pyval \<Rightarrow> pyval" where
  "total (PyArr a) = PyFloat (fold f64_add (flat a) (Finite 0))"
| "total v = v"

definition axis_sums :: "nat transformation" where
  "axis_sums args n = (Inr (PyTuple (map total args)), Suc n)"

definition line_12_34 :: "f64 geom_input" where
  "line_12_34 = One (Some (LineString (XY [(Finite 1, Finite 2), (Finite 3, Finite 4)])))"

text \<open>A mapping function that raises whenever it is called, and counts its calls.\<close>

definition always_raises :: "nat transformation" where
  "always_raises args n = (Inl (UserError 0), Suc n)"

text \<open>
  The identity on one array, \<^verbatim>\<open>lambda x: x\<close>, which records the shape of every array it
  is given.
\<close>

fun recording_identity :: "nat list list transformation" where
  "recording_identity [PyArr a] seen = (Inr (PyArr a), seen @ [shape a])"
| "recording_identity args seen = (Inl TypeError, seen)"

definition point_2d :: "f64 geometry" where
  "point_2d = Point (XY [(Finite 1, Finite 2)])"

definition point_3d :: "f64 geometry" where
  "point_3d = Point (XYZ [(Finite 1, Finite 2, Finite 3)])"

text \<open>The identity on the axes, \<^verbatim>\<open>lambda x, y: (x, y)\<close>, counting its calls.\<close>

definition axes_identity :: "nat transformation" where
  "axes_identity args n = (Inr (PyTuple args), Suc n)"

section \<open>The signed area as a sum over indices\<close>

lemma sum_list_map2_nth:
  fixes f :: "'a \<Rightarrow> 'b \<Rightarrow> real"
  assumes "length xs = m" "length ys = m"
  shows "sum_list (map2 f xs ys) = (\<Sum>i = 0..<m. f (xs ! i) (ys ! i))"
proof -
  have "sum_list (map2 f xs ys) = (\<Sum>i = 0..<length (map2 f xs ys). map2 f xs ys ! i)"
    by (rule sum_list_sum_nth[unfolded atLeast0LessThan[symmetric]]) 
  also have "\<dots> = (\<Sum>i = 0..<m. f (xs ! i) (ys ! i))"
    using assms by (intro sum.cong) auto
  finally show ?thesis .
qed

lemma signed_area_xy_sum:
  assumes "2 \<le> length cs"
  shows "signed_area_xy cs = Inr (shoelace cs / 2)"
proof -
  let ?n = "length cs"
  let ?st = "cs @ [cs ! 1]"
  let ?xs = "map fst ?st" and ?ys = "map snd ?st"
  have lx: "length (butlast (tl ?xs)) = ?n - 1" by simp
  have ly: "length (map2 (-) (drop 2 ?ys) (take (length ?ys - 2) ?ys)) = ?n - 1"
    using assms by simp
  have "sum_list (map2 (*) (butlast (tl ?xs)) (map2 (-) (drop 2 ?ys) (take (length ?ys - 2) ?ys)))
      = (\<Sum>i = 0..<?n - 1. butlast (tl ?xs) ! i * (map2 (-) (drop 2 ?ys) (take (length ?ys - 2) ?ys)) ! i)"
    by (rule sum_list_map2_nth[OF lx ly])
  also have "\<dots> = (\<Sum>i = 0..<?n - 1. fst (cs ! (i + 1)) *
        (snd (cs ! (if i + 2 < ?n then i + 2 else 1)) - snd (cs ! i)))"
  proof (rule sum.cong[OF refl])
    fix i assume "i \<in> {0..<?n - 1}"
    then have i: "i < ?n - 1" by simp
    then have i': "Suc i < ?n" using assms by arith
    have a: "butlast (tl ?xs) ! i = fst (cs ! (i + 1))"
      using i i' assms by (simp add: nth_butlast nth_tl nth_append)
    have b: "drop 2 ?ys ! i = snd (cs ! (if i + 2 < ?n then i + 2 else 1))"
      using i i' assms by (auto simp add: nth_append)
    have c: "take (length ?ys - 2) ?ys ! i = snd (cs ! i)"
      using i i' assms by (simp add: nth_append)
    show "butlast (tl ?xs) ! i * (map2 (-) (drop 2 ?ys) (take (length ?ys - 2) ?ys)) ! i
        = fst (cs ! (i + 1)) * (snd (cs ! (if i + 2 < ?n then i + 2 else 1)) - snd (cs ! i))"
      using i assms a b c by simp
  qed
  also have "\<dots> = shoelace cs"
    unfolding shoelace_def
    by (rule sum.reindex_bij_witness[where i="\<lambda>i. i - 1" and j="\<lambda>i. i + 1"]) auto
  finally show ?thesis
    using assms by (simp add: signed_area_xy_def Let_def)
qed

lemma shoelace_unfold:
  assumes "length vs = Suc m" "1 \<le> m"
  shows "shoelace vs = (\<Sum>i = 1..<Suc m.
        fst (vs ! i) * (snd (vs ! (if i + 1 < Suc m then i + 1 else 1)) - snd (vs ! (i - 1))))"
    unfolding shoelace_def assms(1) ..

lemma sum_last_index:
  fixes g :: "nat \<Rightarrow> real"
  assumes "1 \<le> m"
  shows "(\<Sum>i = 1..<Suc m. g i) = (\<Sum>i = 1..<m. g i) + g m"
  using assms by (rule sum.atLeastLessThan_Suc)

lemma shoelace_inner:
  "(\<Sum>i = 1..<m.
        fst (vs ! i) * (snd (vs ! (if i + 1 < Suc m then i + 1 else 1)) - snd (vs ! (i - 1))))
      = (\<Sum>i = 1..<m. fst (vs ! i) * (snd (vs ! (i + 1)) - snd (vs ! (i - 1))))"
  by (rule sum.cong[OF refl]) simp


lemma shoelace_split:
  assumes "length vs = Suc m" "1 \<le> m"
  shows "shoelace vs =
     (\<Sum>i = 1..<m. fst (vs ! i) * (snd (vs ! (i + 1)) - snd (vs ! (i - 1))))
     + fst (vs ! m) * (snd (vs ! 1) - snd (vs ! (m - 1)))"
proof -
  have "\<not> m + 1 < Suc m" by simp
  then show ?thesis
    unfolding shoelace_unfold[OF assms] sum_last_index[OF assms(2)] shoelace_inner by simp
qed



lemma mult_diff_swap: "(a::real) * (b - c) = - (a * (c - b))"
  by (simp add: algebra_simps)

lemma closed_x:
  assumes "length vs = Suc m" "1 \<le> m" "fst (hd vs) = fst (last vs)"
  shows "fst (vs ! 0) = fst (vs ! m)"
proof -
  have "vs \<noteq> []" using assms(1) by auto
  then have "hd vs = vs ! 0" "last vs = vs ! m"
    using assms(1) by (simp_all add: hd_conv_nth last_conv_nth)
  then show ?thesis using assms(3) by simp
qed

lemma rev_last_term:
  fixes vs :: "(real \<times> real) list"
  assumes m: "length vs = Suc m" "1 \<le> m" and x0: "fst (vs ! 0) = fst (vs ! m)"
  shows "fst (rev vs ! m) * (snd (rev vs ! 1) - snd (rev vs ! (m - 1)))
      = - (fst (vs ! m) * (snd (vs ! 1) - snd (vs ! (m - 1))))"
proof -
  have e1: "rev vs ! m = vs ! 0" using m by (simp add: rev_nth)
  have e2: "rev vs ! 1 = vs ! (m - 1)" using m by (simp add: rev_nth)
  have "Suc m - Suc (m - 1) = 1" using m(2) by arith
  then have e3: "rev vs ! (m - 1) = vs ! 1" using m by (simp add: rev_nth)
  show ?thesis unfolding e1 e2 e3 x0 by (rule mult_diff_swap)
qed


lemma rev_inner_terms:
  fixes vs :: "(real \<times> real) list"
  assumes m: "length vs = Suc m" "1 \<le> m"
  shows "(\<Sum>i = 1..<m. fst (rev vs ! i) * (snd (rev vs ! (i + 1)) - snd (rev vs ! (i - 1))))
      = (\<Sum>i = 1..<m. - (fst (vs ! (m - i)) * (snd (vs ! (m - i + 1)) - snd (vs ! (m - i - 1)))))"
proof (rule sum.cong[OF refl])
  fix i assume "i \<in> {1..<m}"
  then have i: "1 \<le> i" "i < m" by auto
  have e1: "rev vs ! i = vs ! (m - i)" using i m by (simp add: rev_nth)
  have e2: "rev vs ! (i + 1) = vs ! (m - i - 1)" using i m by (simp add: rev_nth)
  have "Suc m - Suc (i - 1) = m - i + 1" using i by arith
  then have e3: "rev vs ! (i - 1) = vs ! (m - i + 1)" using i m by (simp add: rev_nth)
  show "fst (rev vs ! i) * (snd (rev vs ! (i + 1)) - snd (rev vs ! (i - 1)))
      = - (fst (vs ! (m - i)) * (snd (vs ! (m - i + 1)) - snd (vs ! (m - i - 1))))"
    unfolding e1 e2 e3 by (rule mult_diff_swap)
qed


lemma rev_reindex:
  fixes vs :: "(real \<times> real) list"
  shows "(\<Sum>i = 1..<m. - (fst (vs ! (m - i)) * (snd (vs ! (m - i + 1)) - snd (vs ! (m - i - 1)))))
     = (\<Sum>j = 1..<m. - (fst (vs ! j) * (snd (vs ! (j + 1)) - snd (vs ! (j - 1)))))"
proof (rule sum.reindex_bij_witness[where i="\<lambda>j. m - j" and j="\<lambda>i. m - i"])
  fix a assume "a \<in> {1..<m}"
  then have a: "1 \<le> a" "a < m" by auto
  show "m - (m - a) = a" using a by arith
  show "m - a \<in> {1..<m}" using a by auto
  show "- (fst (vs ! (m - a)) * (snd (vs ! (m - a + 1)) - snd (vs ! (m - a - 1))))
     = - (fst (vs ! (m - a)) * (snd (vs ! (m - a + 1)) - snd (vs ! (m - a - 1))))" ..
qed auto


lemma shoelace_rev:
  assumes "2 \<le> length vs" "fst (hd vs) = fst (last vs)"
  shows "shoelace (rev vs) = - shoelace vs"
proof -
  obtain m where m: "length vs = Suc m" "1 \<le> m"
    using assms(1) by (cases "length vs") auto
  have lr: "length (rev vs) = Suc m" using m by simp
  let ?S = "\<Sum>j = 1..<m. fst (vs ! j) * (snd (vs ! (j + 1)) - snd (vs ! (j - 1)))"
  let ?c = "fst (vs ! m) * (snd (vs ! 1) - snd (vs ! (m - 1)))"
  have "shoelace (rev vs) = (\<Sum>j = 1..<m. - (fst (vs ! j) * (snd (vs ! (j + 1)) - snd (vs ! (j - 1))))) + - ?c"
    unfolding shoelace_split[OF lr m(2)] rev_inner_terms[OF m] rev_reindex rev_last_term[OF m closed_x[OF m assms(2)]] ..
  also have "\<dots> = - ?S + - ?c"
    unfolding sum_negf ..
  also have "\<dots> = - (?S + ?c)" by simp
  also have "\<dots> = - shoelace vs"
    unfolding shoelace_split[OF m] ..
  finally show ?thesis .
qed

section \<open>Rebuilding a polygon from kept and reversed rings\<close>

lemma of_rows_rows_of:
  assumes "0 < len_coords cs"
  shows "of_rows (rows_of cs) = Inr cs"
proof (cases cs)
  case (XY ps)
  have "list_all (\<lambda>r. length r = 2) (map (\<lambda>(x, y). [x, y]) ps)"
    by (auto simp: list_all_iff)
  moreover have "map (\<lambda>r. (r ! 0, r ! 1)) (map (\<lambda>(x, y). [x, y]) ps) = ps"
    by (induction ps) auto
  ultimately show ?thesis using XY by (simp add: of_rows_def)
next
  case (XYZ ps)
  obtain p ps' where ps: "ps = p # ps'" using assms XYZ by (cases ps) auto
  have "\<not> list_all (\<lambda>r. length r = 2) (map (\<lambda>(x, y, z). [x, y, z]) ps)"
    unfolding ps by (cases p) simp
  moreover have "list_all (\<lambda>r. length r = 3) (map (\<lambda>(x, y, z). [x, y, z]) ps)"
    by (auto simp: list_all_iff)
  moreover have "map (\<lambda>r. (r ! 0, r ! 1, r ! 2)) (map (\<lambda>(x, y, z). [x, y, z]) ps) = ps"
    by (induction ps) auto
  ultimately show ?thesis using XYZ by (simp add: of_rows_def)
qed

lemma len_reversed [simp]: "len_coords (reversed cs) = len_coords cs"
  by (cases cs) auto

lemma length_rows_of [simp]: "length (rows_of cs) = len_coords cs"
  by (cases cs) auto

lemma closed_ring_len: "closed_ring cs \<Longrightarrow> 2 \<le> len_coords cs"
  by (cases cs) auto

lemma closed_ring_reversed: "closed_ring cs \<Longrightarrow> closed_ring (reversed cs)"
  by (cases cs) (auto simp: hd_rev last_rev)

lemma two_nonempty: "2 \<le> length xs \<Longrightarrow> xs \<noteq> []"
  by auto

lemma close_ring_rows_of: "closed_ring cs \<Longrightarrow> close_ring (rows_of cs) = rows_of cs"
  by (cases cs) (auto simp: close_ring_def hd_map last_map dest!: two_nonempty)

lemma first_two_reversed [simp]: "first_two (reversed cs) = rev (first_two cs)"
  by (cases cs) (auto simp: rev_map)

lemma closed_ring_first_two:
  "closed_ring cs \<Longrightarrow> 2 \<le> length (first_two cs) \<and> hd (first_two cs) = last (first_two cs)"
  by (cases cs) (auto simp: hd_map last_map dest!: two_nonempty)

lemma linearrings_closed:
  "closed_ring cs \<Longrightarrow> linearrings (rows_of cs) = Inr (LinearRing cs)"
  using closed_ring_len[of cs] by (simp add: linearrings_def close_ring_rows_of of_rows_rows_of)

lemma sequence_coords_item_Tuple: "sequence (map (coords_item \<circ> Tuple) rows) = Inr rows"
  by (induction rows) auto

lemma those_item_tuple: "those (map (item_tuple \<circ> Tuple) rows) = Some rows"
  by (induction rows) auto



lemma pick_ring_LinearRing: "pick_ring (LinearRing cs, f) = Inr (ring_arg f cs)"
  by (simp add: pick_ring_def ring_arg_def)

lemma LinearRing_build_closed:
  "closed_ring cs \<Longrightarrow> LinearRing_build (rows_of cs) = Inr (Fresh (LinearRing cs))"
  using closed_ring_len[of cs] by (simp add: LinearRing_build_def linearrings_closed)

lemma LinearRing_new_Tuples:
  "LinearRing_new valid (ArgSeq (map Tuple rows)) = LinearRing_build rows"
  by (simp add: LinearRing_new_def sequence_coords_item_Tuple)

lemma LinearRing_new_ring_arg:
  assumes "closed_ring cs"
  shows "\<exists>m. LinearRing_new valid (ring_arg f cs) = Inr m
            \<and> made_geom m = LinearRing (kept_or_reversed f cs)"
proof (cases f)
  case True
  then show ?thesis by (simp add: ring_arg_def LinearRing_new_def kept_or_reversed_def)
next
  case False
  then show ?thesis
    using LinearRing_build_closed[OF closed_ring_reversed[OF assms]]
    by (simp add: ring_arg_def LinearRing_new_Tuples kept_or_reversed_def)
qed

lemma sequence_pick_rings:
  "length fs = length holes \<Longrightarrow>
   sequence (map pick_ring (zip (map LinearRing holes) fs)) = Inr (ring_args fs holes)"
proof (induction fs holes rule: ring_args.induct)
  case (1 f fs c cs)
  then show ?case by (simp add: pick_ring_LinearRing)
qed auto

lemma length_ring_args: "length fs = length holes \<Longrightarrow> length (ring_args fs holes) = length holes"
  by (induction fs holes rule: ring_args.induct) auto

lemma sequence_LinearRing_new_ring_args:
  "length fs = length holes \<Longrightarrow> list_all closed_ring holes \<Longrightarrow>
   \<exists>ms. sequence (map (LinearRing_new valid) (ring_args fs holes)) = Inr ms
       \<and> map made_geom ms = map LinearRing (kept_or_reversed_all fs holes)"
proof (induction fs holes rule: ring_args.induct)
  case (1 f fs c cs)
  then obtain ms where ms: "sequence (map (LinearRing_new valid) (ring_args fs cs)) = Inr ms"
      "map made_geom ms = map LinearRing (kept_or_reversed_all fs cs)"
    by auto
  from 1 have "closed_ring c" by simp
  from LinearRing_new_ring_arg[OF this, of valid f]
  obtain m where m: "LinearRing_new valid (ring_arg f c) = Inr m"
      "made_geom m = LinearRing (kept_or_reversed f c)"
    by blast
  show ?case using ms m by simp
qed auto


lemma sequence_ring_coords: "sequence (map (ring_coords \<circ> LinearRing) xs) = Inr xs"
  by (induction xs) auto

lemma asarray_numeric_rows_of:
  "asarray_numeric (map Tuple (rows_of cs)) = Some (rows_of cs)"
proof -
  have "list_all (\<lambda>r. length r = length (hd (rows_of cs))) (rows_of cs)"
  proof (cases cs)
    case (XY ps)
    then show ?thesis by (cases ps) (auto simp: list_all_iff)
  next
    case (XYZ ps)
    then show ?thesis by (cases ps) (auto simp: list_all_iff)
  qed
  then show ?thesis by (simp add: asarray_numeric_def those_item_tuple)
qed

lemma Polygon_build_rings:
  "Polygon_build (Inl (LinearRing cs)) (Some (map LinearRing hs)) = Inr (Fresh (Polygon cs hs))"
  "Polygon_build (Inl (LinearRing cs)) None = Inr (Fresh (Polygon cs []))"
  by (simp_all add: Polygon_build_def polygons_def sequence_ring_coords)

lemma ring_arg_shape:
  "ring_arg f cs \<noteq> ArgNone"
  "(case ring_arg f cs of ArgGeom g \<Rightarrow> is_Polygon g | _ \<Rightarrow> False) = False"
  by (simp_all add: ring_arg_def)

lemma Polygon_new_shell:
  assumes "closed_ring shell"
  shows "(case ring_arg f shell of
            ArgGeom g \<Rightarrow>
              if \<not> is_LinearRing g then
                (case LinearRing_new valid (ArgGeom g) of
                   Inl e \<Rightarrow> Inl e
                 | Inr r \<Rightarrow> Polygon_build (Inl (made_geom r)) hs)
              else Polygon_build (Inl g) hs
          | ArgArray rows \<Rightarrow>
              if length rows = 0 then Inr (Fresh (Polygon (XY []) []))
              else Polygon_build (Inr rows) hs
          | ArgSeq items \<Rightarrow>
              if length items = 0 then Inr (Fresh (Polygon (XY []) []))
              else (case asarray_numeric items of
                      None \<Rightarrow> Inl ValueError
                    | Some rows \<Rightarrow> Polygon_build (Inr rows) hs)
          | ArgNone \<Rightarrow> Inr (Fresh (Polygon (XY []) [])))
       = Polygon_build (Inl (LinearRing (kept_or_reversed f shell))) hs"
proof (cases f)
  case True
  then show ?thesis by (simp add: ring_arg_def kept_or_reversed_def)
next
  case False
  have "0 < len_coords shell" using closed_ring_len[OF assms] by simp
  moreover have "Polygon_build (Inr (rows_of (reversed shell))) hs
      = Polygon_build (Inl (LinearRing (reversed shell))) hs"
    using linearrings_closed[OF closed_ring_reversed[OF assms]]
    by (simp add: Polygon_build_def polygons_def)
  ultimately show ?thesis
    using False asarray_numeric_rows_of[of "reversed shell"]
    by (simp add: ring_arg_def kept_or_reversed_def del: map_map)
qed

lemma Polygon_new_ring_args:
  assumes "closed_ring shell" "list_all closed_ring holes" "length fs = length holes"
  shows "Polygon_new valid (ring_arg f shell) (Some (ring_args fs holes))
       = Inr (Fresh (Polygon (kept_or_reversed f shell) (kept_or_reversed_all fs holes)))"
proof (cases holes)
  case Nil
  then have "ring_args fs holes = []" "kept_or_reversed_all fs holes = []" using assms(3) by auto
  then show ?thesis
    unfolding Polygon_new_def
    by (simp add: ring_arg_shape Polygon_new_shell[OF assms(1)] Polygon_build_rings del: One_nat_def)
next
  case (Cons h hs)
  then have ne: "length (ring_args fs holes) \<noteq> 0"
    using length_ring_args[OF assms(3)] by simp
  obtain ms where ms: "sequence (map (LinearRing_new valid) (ring_args fs holes)) = Inr ms"
      "map made_geom ms = map LinearRing (kept_or_reversed_all fs holes)"
    using sequence_LinearRing_new_ring_args[OF assms(3,2)] by blast
  show ?thesis
    unfolding Polygon_new_def
    using ne ms
    by (simp add: ring_arg_shape Polygon_new_shell[OF assms(1)] Polygon_build_rings)
qed


lemma not_empty_closed: "closed_ring shell \<Longrightarrow> \<not> is_empty (Polygon shell holes)"
  using closed_ring_len[of shell] by (simp add: is_empty_def)

lemma force_ccw_polygon_flags:
  assumes "closed_ring shell" "list_all closed_ring holes"
    and "is_ccw env (Batch (map Some (LinearRing shell # map LinearRing holes))) = Inr (Flags flags)"
    and "reverse_flags flags ccw = Inr (k # ks)" "length ks = length holes"
  shows "force_ccw env (Polygon shell holes) ccw
       = Inr (Polygon (kept_or_reversed k shell) (kept_or_reversed_all ks holes))"
proof -
  have seq: "sequence (map pick_ring (zip (LinearRing shell # map LinearRing holes) (k # ks)))
      = Inr (ring_arg k shell # ring_args ks holes)"
    using sequence_pick_rings[OF assms(5)] by (simp add: pick_ring_LinearRing)
  show ?thesis
    using assms(3,4) seq not_empty_closed[OF assms(1), of holes]
      Polygon_new_ring_args[OF assms(1,2,5), of "is_valid env" k]
    by (simp add: force_ccw_polygon_def interiors_of_def Let_def del: list.map zip_Cons_Cons)
qed

section \<open>Signs of kept and reversed rings\<close>

lemma signed_area_closed:
  assumes "closed_ring cs"
  shows "signed_area (LinearRing cs) = Inr (shoelace (first_two cs) / 2)"
  using closed_ring_first_two[OF assms]
  by (simp add: signed_area_def signed_area_xy_sum)

lemma signed_area_reversed:
  assumes "closed_ring cs"
  shows "signed_area (LinearRing (reversed cs)) = Inr (- (shoelace (first_two cs) / 2))"
proof -
  have c: "2 \<le> length (first_two cs)" "hd (first_two cs) = last (first_two cs)"
    using closed_ring_first_two[OF assms] by auto
  then have "shoelace (rev (first_two cs)) = - shoelace (first_two cs)"
    by (intro shoelace_rev) auto
  then show ?thesis
    using signed_area_closed[OF closed_ring_reversed[OF assms]] by simp
qed

lemma shoelace_degenerate:
  assumes "2 \<le> length vs" "length vs < 4" "hd vs = last vs"
  shows "shoelace vs = 0"
proof -
  consider a b where "vs = [a, b]" | a b c where "vs = [a, b, c]"
    using assms(1,2) by (cases vs; cases "tl vs"; cases "tl (tl vs)"; cases "tl (tl (tl vs))") auto
  then show ?thesis
  proof cases
    case 1
    then show ?thesis using assms(3) by (simp add: shoelace_def)
  next
    case 2
    have "{1..<3::nat} = {1, 2}" by auto
    then show ?thesis using assms(3) 2 by (simp add: shoelace_def)
  qed
qed


lemma is_ccw_fallback_one_ring:
  "is_ccw_fallback_one (Some (LinearRing cs)) =
     (if len_coords cs < 4 then Inr False
      else map_sum id (\<lambda>a. 0 \<le> a) (signed_area (LinearRing cs)))"
  by (simp add: is_ccw_fallback_one_def split: sum.splits)

lemma length_first_two [simp]: "length (first_two cs) = len_coords cs"
  by (cases cs) auto

lemma ring_sign:
  assumes "closed_ring cs"
  shows "\<exists>f. is_ccw_fallback_one (Some (LinearRing cs)) = Inr f
     \<and> (\<exists>a. signed_area (LinearRing (kept_or_reversed f cs)) = Inr a \<and> 0 \<le> a)
     \<and> (\<exists>a. signed_area (LinearRing (kept_or_reversed (\<not> f) cs)) = Inr a \<and> a \<le> 0)"
proof -
  let ?A = "shoelace (first_two cs) / 2"
  have sa: "signed_area (LinearRing cs) = Inr ?A" by (rule signed_area_closed[OF assms])
  have sr: "signed_area (LinearRing (reversed cs)) = Inr (- ?A)"
    by (rule signed_area_reversed[OF assms])
  have c: "2 \<le> length (first_two cs)" "hd (first_two cs) = last (first_two cs)"
    using closed_ring_first_two[OF assms] by auto
  have kr: "kept_or_reversed True cs = cs" "kept_or_reversed False cs = reversed cs"
    by (simp_all add: kept_or_reversed_def)
  show ?thesis
  proof (cases "len_coords cs < 4")
    case True
    then have z: "shoelace (first_two cs) = 0"
      using c by (intro shoelace_degenerate) auto
    have "is_ccw_fallback_one (Some (LinearRing cs)) = Inr False"
      using True by (simp add: is_ccw_fallback_one_ring)
    moreover have "signed_area (LinearRing (kept_or_reversed False cs)) = Inr 0"
      using sr z by (simp add: kr)
    moreover have "signed_area (LinearRing (kept_or_reversed (\<not> False) cs)) = Inr 0"
      using sa z by (simp add: kr)
    ultimately show ?thesis by (intro exI[of _ False] conjI exI[of _ "0::real"]) simp_all
  next
    case False
    then have one: "is_ccw_fallback_one (Some (LinearRing cs)) = Inr (0 \<le> ?A)"
      using sa by (simp add: is_ccw_fallback_one_ring)
    show ?thesis
    proof (cases "0 \<le> ?A")
      case True
      have "signed_area (LinearRing (kept_or_reversed True cs)) = Inr ?A"
        using sa by (simp add: kr)
      moreover have "signed_area (LinearRing (kept_or_reversed (\<not> True) cs)) = Inr (- ?A)"
        using sr by (simp add: kr)
      moreover have "is_ccw_fallback_one (Some (LinearRing cs)) = Inr True"
        using one True by simp
      ultimately show ?thesis using True
        by (intro exI[of _ True] conjI exI[of _ "?A"] exI[of _ "- ?A"]) simp_all
    next
      case F: False
      have "signed_area (LinearRing (kept_or_reversed False cs)) = Inr (- ?A)"
        using sr by (simp add: kr)
      moreover have "signed_area (LinearRing (kept_or_reversed (\<not> False) cs)) = Inr ?A"
        using sa by (simp add: kr)
      moreover have "is_ccw_fallback_one (Some (LinearRing cs)) = Inr False"
        using one F by simp
      ultimately show ?thesis using F
        by (intro exI[of _ False] conjI exI[of _ "?A"] exI[of _ "- ?A"]) simp_all
    qed
  qed
qed

lemma rings_sign:
  assumes "list_all closed_ring holes"
  shows "\<exists>fs. sequence (map is_ccw_fallback_one (map Some (map LinearRing holes))) = Inr fs
     \<and> length fs = length holes
     \<and> list_all (\<lambda>h. \<exists>a. signed_area (LinearRing h) = Inr a \<and> 0 \<le> a)
          (kept_or_reversed_all fs holes)
     \<and> list_all (\<lambda>h. \<exists>a. signed_area (LinearRing h) = Inr a \<and> a \<le> 0)
          (kept_or_reversed_all (map Not fs) holes)"
  using assms
proof (induction holes)
  case Nil
  then show ?case by simp
next
  case (Cons h holes)
  then obtain fs where fs: "sequence (map is_ccw_fallback_one (map Some (map LinearRing holes))) = Inr fs"
     "length fs = length holes"
     "list_all (\<lambda>h. \<exists>a. signed_area (LinearRing h) = Inr a \<and> 0 \<le> a)
          (kept_or_reversed_all fs holes)"
     "list_all (\<lambda>h. \<exists>a. signed_area (LinearRing h) = Inr a \<and> a \<le> 0)
          (kept_or_reversed_all (map Not fs) holes)"
    by auto
  from Cons.prems have "closed_ring h" by simp
  from ring_sign[OF this] obtain f where f: "is_ccw_fallback_one (Some (LinearRing h)) = Inr f"
     "\<exists>a. signed_area (LinearRing (kept_or_reversed f h)) = Inr a \<and> 0 \<le> a"
     "\<exists>a. signed_area (LinearRing (kept_or_reversed (\<not> f) h)) = Inr a \<and> a \<le> 0"
    by blast
  show ?case
    by (rule exI[of _ "f # fs"]) (use fs f in simp)
qed

lemma length_kept_or_reversed_all:
  "length fs = length holes \<Longrightarrow> length (kept_or_reversed_all fs holes) = length holes"
  by (induction fs holes rule: kept_or_reversed_all.induct) auto

lemma geom_type_line: "(geom_type g \<in> set [''LinearRing'', ''LineString'']) = isinstance_LineString g"
  by (cases g) simp_all

lemma reverse_flags_Cons:
  "reverse_flags (f # fs) ccw = Inr (if ccw then f # map Not fs else (\<not> f) # fs)"
  by (simp add: reverse_flags_def)

lemmas eval_defs = force_ccw_polygon_def is_ccw_def reference_geos_def is_ccw_fallback_def
  is_ccw_fallback_one_def square_cw_def square_cw_z_def big_square_cw_def hole_ccw_def
  signed_area_def signed_area_xy_def interiors_of_def is_empty_def reverse_flags_def
  pick_ring_def Polygon_new_def asarray_numeric_def Polygon_build_def polygons_def linearrings_def
  close_ring_def of_rows_def LinearRing_new_def LinearRing_build_def kept_or_reversed_def

section \<open>Coordinate access\<close>

lemma put_ring_error: "put_ring ncols rows cs = Inl e \<Longrightarrow> e = GEOSException"
  by (auto simp: put_ring_def split: prod.splits if_splits)

lemma put_rings_error: "put_rings ncols rows css = Inl e \<Longrightarrow> e = GEOSException"
  by (induction css arbitrary: rows)
     (auto split: sum.splits prod.splits dest: put_ring_error)

lemma map_sum_Inl: "map_sum id f r = Inl e \<Longrightarrow> r = Inl e"
  by (cases r) auto

lemma put_geom_error:
  "put_geom ncols rows g = Inl e \<Longrightarrow> e = GEOSException"
  "put_geoms ncols rows gs = Inl e \<Longrightarrow> e = GEOSException"
  by (induction ncols rows g and ncols rows gs rule: put_geom_put_geoms.induct)
     (auto split: sum.splits prod.splits dest!: map_sum_Inl dest: put_ring_error put_rings_error)

lemma put_elements_error: "fst (put_elements ncols rows gs) = Inl e \<Longrightarrow> e = GEOSException"
  by (induction ncols rows gs rule: put_elements.induct)
     (auto split: sum.splits prod.splits dest: put_geom_error)

lemma lib_set_coordinates_error:
  "lib_set_coordinates gs coordinates = (Inl e, w) \<Longrightarrow> e = GEOSException"
  unfolding lib_set_coordinates_def
  by (rule put_elements_error[of "shape coordinates ! 1" "array_rows coordinates" gs]) simp

lemma set_coordinates_cases:
  "set_coordinates G B =
     (if ndim (atleast_2d B) \<noteq> 2
         \<or> shape (atleast_2d B) ! 0 \<noteq> count_coordinates G
         \<or> shape (atleast_2d B) ! 1 \<notin> {2, 3}
      then (Inl ValueError, G)
      else case lib_set_coordinates (elements G) ((atleast_2d B)\<lparr>dtype := Float64\<rparr>) of
             (Inl e, written) \<Rightarrow> (Inl e, if is_ndarray G then ArrayOf written else G)
           | (Inr u, written) \<Rightarrow>
               (Inr (unwrap G written), if is_ndarray G then ArrayOf written else G))"
  by (simp add: set_coordinates_def Let_def count_coordinates_def ndim_def)

lemma set_coordinates_ValueError_iff:
  "(fst (set_coordinates G B) = Inl ValueError) =
     (ndim (atleast_2d B) \<noteq> 2
      \<or> shape (atleast_2d B) ! 0 \<noteq> count_coordinates G
      \<or> shape (atleast_2d B) ! 1 \<notin> {2, 3})"
  unfolding set_coordinates_cases
  by (auto split: prod.splits sum.splits dest: lib_set_coordinates_error)

lemma set_coordinates_other_error:
  "fst (set_coordinates G B) = Inl e \<Longrightarrow> e \<noteq> ValueError \<Longrightarrow> e = GEOSException"
  unfolding set_coordinates_cases
  by (auto split: prod.splits sum.splits if_splits dest: lib_set_coordinates_error)

lemma set_coordinates_ValueError_unmodified:
  "fst (set_coordinates G B) = Inl ValueError \<Longrightarrow> set_coordinates G B = (Inl ValueError, G)"
  unfolding set_coordinates_cases
  by (auto split: prod.splits sum.splits if_splits dest: lib_set_coordinates_error)


lemmas eval_coord_defs = set_coordinates_def count_coordinates_def lib_count_coordinates_def
  lib_set_coordinates_def atleast_2d_def ndim_def array_rows_def put_seq_def put_ring_def unwrap_def
  point_and_line_def point_and_ring_def buffer_3x2_def buffer_2x2_def buffer_5x2_open_def

section \<open>The transform pipeline\<close>

lemmas eval_transform_defs = private_transform_multi_vec_def private_transform_def whole_axes_def
  per_coordinate_def axes_def scalars_def T_def array_rows_def stack_def promote_def
  lib_get_coordinates_def lib_set_coordinates_def put_seq_def put_ring_def unwrap_def
  get_coordinates_def
  axis_sums_def axes_identity_def line_12_34_def single_arg_def

lemma call_each_zip_map:
  "call_each (\<lambda>(g, b). F g b) (zip gs (map h gs)) s = call_each (\<lambda>g. F g (h g)) gs s"
  by (induction gs arbitrary: s) (auto split: prod.splits sum.splits)

lemma resolve_minus_one:
  "resolve_include_z (ListOf gs) (IZInt (- 1)) = ZArray (map own_z gs)"
  by (simp add: resolve_include_z_def own_z_def)

lemma vectorized_own:
  "vectorized w (ListOf gs) (ZArray (map h gs)) s = as_array (call_each (\<lambda>g. w g (h g)) gs s)"
  by (simp add: vectorized_def broadcast_z_def call_each_zip_map as_array_def
        split: prod.splits sum.splits)

lemma transform_rebuild_list:
  "transform valid (ListOf gs) f iz single_vec True s
     = vectorized (\<lambda>g b. on_geometry (\<lambda>g'. rebuild_wrapper_for valid f single_vec g' b) g)
         (ListOf gs) (resolve_include_z (ListOf gs) iz) s"
  by (simp add: transform_def rebuild_wrapper_for_def Let_def)

lemma transform_array_z:
  assumes "resolve_include_z geometry iz = ZArray (b0 # bs)"
  shows "transform valid geometry f iz single_vec False s
     = (if list_all (\<lambda>b. b = b0) bs then wrapper_for f single_vec geometry b0 s
        else vectorized (\<lambda>g b. on_element (\<lambda>g'. wrapper_for f single_vec g' b) g)
               geometry (ZArray (b0 # bs)) s)"
  by (simp add: transform_def assms wrapper_for_def Let_def)

lemmas eval_batch_defs = transform_def resolve_include_z_def get_coordinate_dimension_def
  vectorized_def broadcast_z_def on_element_def on_geometry_def private_transform_def single_arg_def
  lib_get_coordinates_def lib_set_coordinates_def array_rows_def put_seq_def put_ring_def unwrap_def
  point_2d_def point_3d_def own_z_def wrapper_for_def as_array_def

section \<open>Claims on the orientation of rings\<close>

text \<open>
  C1. For a polygon whose rings are closed, with any number of interior rings, and a
  winding check that agrees with the reference check on these rings, \<open>force_ccw\<close> returns
  a polygon with as many interior rings; with \<open>ccw\<close> true its exterior ring has a signed
  area \<open>\<ge> 0\<close> and every interior ring a signed area \<open>\<le> 0\<close>, with \<open>ccw\<close> false the signs
  are the opposite ones.
\<close>

theorem force_ccw_polarity:
  assumes "closed_ring shell" "list_all closed_ring holes"
    and "is_ccw env (Batch (map Some (LinearRing shell # map LinearRing holes)))
         = is_ccw_fallback [] (Batch (map Some (LinearRing shell # map LinearRing holes)))"
  shows "\<exists>shell' holes'.
           force_ccw env (Polygon shell holes) ccw = Inr (Polygon shell' holes')
         \<and> length holes' = length holes
         \<and> (\<exists>a. signed_area (LinearRing shell') = Inr a \<and> (if ccw then 0 \<le> a else a \<le> 0))
         \<and> list_all (\<lambda>h. \<exists>a. signed_area (LinearRing h) = Inr a \<and> (if ccw then a \<le> 0 else 0 \<le> a))
              holes'"
proof -
  obtain f where f: "is_ccw_fallback_one (Some (LinearRing shell)) = Inr f"
     "\<exists>a. signed_area (LinearRing (kept_or_reversed f shell)) = Inr a \<and> 0 \<le> a"
     "\<exists>a. signed_area (LinearRing (kept_or_reversed (\<not> f) shell)) = Inr a \<and> a \<le> 0"
    using ring_sign[OF assms(1)] by blast
  obtain fs where fs: "sequence (map is_ccw_fallback_one (map Some (map LinearRing holes))) = Inr fs"
     "length fs = length holes"
     "list_all (\<lambda>h. \<exists>a. signed_area (LinearRing h) = Inr a \<and> 0 \<le> a)
          (kept_or_reversed_all fs holes)"
     "list_all (\<lambda>h. \<exists>a. signed_area (LinearRing h) = Inr a \<and> a \<le> 0)
          (kept_or_reversed_all (map Not fs) holes)"
    using rings_sign[OF assms(2)] by blast
  have flags: "is_ccw env (Batch (map Some (LinearRing shell # map LinearRing holes))) = Inr (Flags (f # fs))"
    unfolding assms(3) using f(1) fs(1) by (simp add: is_ccw_fallback_def)
  show ?thesis
  proof (cases ccw)
    case True
    have rf: "reverse_flags (f # fs) ccw = Inr (f # map Not fs)"
      using True by (simp add: reverse_flags_Cons)
    have "force_ccw env (Polygon shell holes) ccw
        = Inr (Polygon (kept_or_reversed f shell) (kept_or_reversed_all (map Not fs) holes))"
      by (rule force_ccw_polygon_flags[OF assms(1,2) flags rf]) (simp add: fs(2))
    moreover have "length (kept_or_reversed_all (map Not fs) holes) = length holes"
      by (rule length_kept_or_reversed_all) (simp add: fs(2))
    ultimately show ?thesis using True f(2) fs(4)
      by (intro exI[of _ "kept_or_reversed f shell"]
                exI[of _ "kept_or_reversed_all (map Not fs) holes"]) simp
  next
    case False
    have rf: "reverse_flags (f # fs) ccw = Inr ((\<not> f) # fs)"
      using False by (simp add: reverse_flags_Cons)
    have "force_ccw env (Polygon shell holes) ccw
        = Inr (Polygon (kept_or_reversed (\<not> f) shell) (kept_or_reversed_all fs holes))"
      by (rule force_ccw_polygon_flags[OF assms(1,2) flags rf]) (simp add: fs(2))
    moreover have "length (kept_or_reversed_all fs holes) = length holes"
      by (rule length_kept_or_reversed_all) (simp add: fs(2))
    ultimately show ?thesis using False f(3) fs(3)
      by (intro exI[of _ "kept_or_reversed (\<not> f) shell"]
                exI[of _ "kept_or_reversed_all fs holes"]) simp
  qed
qed

theorem force_ccw_polarity_witness:
  "closed_ring big_square_cw \<and> list_all closed_ring [hole_ccw]
   \<and> force_ccw reference_geos (Polygon big_square_cw [hole_ccw]) True
       = Inr (Polygon (reversed big_square_cw) [reversed hole_ccw])
   \<and> signed_area (LinearRing (reversed big_square_cw)) = Inr 16
   \<and> signed_area (LinearRing (reversed hole_ccw)) = Inr (- 1)
   \<and> force_ccw reference_geos (Polygon big_square_cw [hole_ccw]) False
       = Inr (Polygon big_square_cw [hole_ccw])
   \<and> signed_area (LinearRing big_square_cw) = Inr (- 16)
   \<and> signed_area (LinearRing hole_ccw) = Inr 1"
  using force_ccw_polarity[of big_square_cw "[hole_ccw]" reference_geos True]
    force_ccw_polarity[of big_square_cw "[hole_ccw]" reference_geos False]
  by (simp add: eval_defs)

text \<open>
  C2, as the code has it. The flags of the rings, in the order exterior, interiors, are
  those of the winding check; the flag of the exterior is inverted, then every flag is
  inverted when \<open>ccw\<close> is true. A ring whose resulting flag is true is kept as it is, a
  ring whose resulting flag is false has its coordinate sequence reversed.
\<close>

theorem force_ccw_keeps_flagged_rings:
  assumes "closed_ring shell" "list_all closed_ring holes"
    and "is_ccw env (Batch (map Some (LinearRing shell # map LinearRing holes))) = Inr (Flags (f # fs))"
    and "length fs = length holes"
  shows "\<exists>k ks. reverse_flags (f # fs) ccw = Inr (k # ks)
           \<and> k # ks = (if ccw then map Not ((\<not> f) # fs) else (\<not> f) # fs)
           \<and> force_ccw env (Polygon shell holes) ccw
               = Inr (Polygon (kept_or_reversed k shell) (kept_or_reversed_all ks holes))"
proof (cases ccw)
  case True
  have rf: "reverse_flags (f # fs) ccw = Inr (f # map Not fs)"
    using True by (simp add: reverse_flags_Cons)
  have "force_ccw env (Polygon shell holes) ccw
      = Inr (Polygon (kept_or_reversed f shell) (kept_or_reversed_all (map Not fs) holes))"
    by (rule force_ccw_polygon_flags[OF assms(1,2,3) rf]) (simp add: assms(4))
  with rf True show ?thesis by simp
next
  case False
  have rf: "reverse_flags (f # fs) ccw = Inr ((\<not> f) # fs)"
    using False by (simp add: reverse_flags_Cons)
  have "force_ccw env (Polygon shell holes) ccw
      = Inr (Polygon (kept_or_reversed (\<not> f) shell) (kept_or_reversed_all fs holes))"
    by (rule force_ccw_polygon_flags[OF assms(1,2,3) rf]) (simp add: assms(4))
  with rf False show ?thesis by simp
qed


theorem force_ccw_keeps_flagged_rings_witness:
  "closed_ring big_square_cw \<and> list_all closed_ring [hole_ccw]
   \<and> is_ccw reference_geos (Batch (map Some (LinearRing big_square_cw # map LinearRing [hole_ccw])))
       = Inr (Flags [False, True])
   \<and> reverse_flags [False, True] True = Inr [False, False]
   \<and> force_ccw reference_geos (Polygon big_square_cw [hole_ccw]) True
       = Inr (Polygon (reversed big_square_cw) [reversed hole_ccw])"
  using force_ccw_keeps_flagged_rings[of big_square_cw "[hole_ccw]" reference_geos False "[True]" True]
  by (simp add: eval_defs)

text \<open>
  C2, as stated: the rings reversed would be those whose resulting flag is true. On the
  clockwise square with \<open>ccw\<close> true the resulting flag of the exterior is false and the
  ring is reversed; with \<open>ccw\<close> false the resulting flag is true and the ring is kept.
\<close>

theorem force_ccw_reverses_flagged_counterexample:
  "is_ccw reference_geos (Batch [Some (LinearRing square_cw)]) = Inr (Flags [False])
   \<and> reverse_flags [False] True = Inr [False]
   \<and> force_ccw reference_geos (Polygon square_cw []) True = Inr (Polygon (reversed square_cw) [])
   \<and> reversed square_cw \<noteq> square_cw
   \<and> reverse_flags [False] False = Inr [True]
   \<and> force_ccw reference_geos (Polygon square_cw []) False = Inr (Polygon square_cw [])"
  by (simp add: eval_defs)

text \<open>
  C3. The signed area of a closed ring is half the sum of \<open>x\<^sub>i * (y\<^sub>i\<^sub>+\<^sub>1 - y\<^sub>i\<^sub>-\<^sub>1)\<close> over the
  indices \<open>1 \<dots> n - 1\<close> with the wrap-around neighbours of \<open>shoelace\<close>, and two rings with
  the same first two coordinate columns have the same signed area: a third coordinate is
  ignored.
\<close>

theorem signed_area_is_shoelace:
  assumes "closed_ring cs"
  shows "signed_area (LinearRing cs) = Inr (shoelace (first_two cs) / 2)
       \<and> (\<forall>cs'. first_two cs' = first_two cs
             \<longrightarrow> signed_area (LinearRing cs') = signed_area (LinearRing cs))"
  using signed_area_closed[OF assms] by (simp add: signed_area_def)

theorem signed_area_is_shoelace_witness:
  "closed_ring square_cw_z
   \<and> signed_area (LinearRing square_cw_z) = Inr (shoelace (first_two square_cw_z) / 2)
   \<and> signed_area (LinearRing square_cw_z) = Inr (- 1)
   \<and> signed_area (LinearRing square_cw) = signed_area (LinearRing square_cw_z)"
  using signed_area_is_shoelace[of square_cw_z]
  by (simp add: square_cw_def square_cw_z_def signed_area_def signed_area_xy_def)

text \<open>
  C4. The reference check answers false for \<open>None\<close>; for a LinearRing or LineString
  with fewer than 4 coordinates it answers false whatever the signed area is; with 4 or
  more coordinates the signed area is defined and the answer is whether it is \<open>\<ge> 0\<close>;
  for any other geometry it answers false, and in none of these cases raises.
\<close>

theorem is_ccw_fallback_reference:
  "is_ccw_fallback [] (Single None) = Inr (Flag False)
   \<and> (isinstance_LineString g \<and> coords g = Inr cs \<and> len_coords cs < 4
        \<longrightarrow> is_ccw_fallback [] (Single (Some g)) = Inr (Flag False))
   \<and> (isinstance_LineString g \<and> coords g = Inr cs \<and> 4 \<le> len_coords cs
        \<longrightarrow> (\<exists>a. signed_area g = Inr a
                 \<and> is_ccw_fallback [] (Single (Some g)) = Inr (Flag (0 \<le> a))))
   \<and> (\<not> isinstance_LineString g
        \<longrightarrow> is_ccw_fallback [] (Single (Some g)) = Inr (Flag False))"
proof (intro conjI impI)
  show "is_ccw_fallback [] (Single None) = Inr (Flag False)"
    by (simp add: is_ccw_fallback_def is_ccw_fallback_one_def)
next
  assume "isinstance_LineString g \<and> coords g = Inr cs \<and> len_coords cs < 4"
  then show "is_ccw_fallback [] (Single (Some g)) = Inr (Flag False)"
    by (simp add: is_ccw_fallback_def is_ccw_fallback_one_def geom_type_line del: set_simps)
next
  assume a: "isinstance_LineString g \<and> coords g = Inr cs \<and> 4 \<le> len_coords cs"
  then have "signed_area g = Inr (shoelace (first_two cs) / 2)"
    by (simp add: signed_area_def signed_area_xy_sum)
  with a show "\<exists>a. signed_area g = Inr a
                 \<and> is_ccw_fallback [] (Single (Some g)) = Inr (Flag (0 \<le> a))"
    by (intro exI[of _ "shoelace (first_two cs) / 2"])
       (simp add: is_ccw_fallback_def is_ccw_fallback_one_def geom_type_line del: set_simps)
next
  assume "\<not> isinstance_LineString g"
  then show "is_ccw_fallback [] (Single (Some g)) = Inr (Flag False)"
    by (simp add: is_ccw_fallback_def is_ccw_fallback_one_def geom_type_line del: set_simps)
qed


theorem is_ccw_fallback_reference_witness:
  "is_ccw_fallback [] (Single (Some (LinearRing (XY [(0, 0), (1, 0), (1, 1)])))) = Inr (Flag False)
   \<and> signed_area (LinearRing (XY [(0, 0), (1, 0), (1, 1)])) = Inr (1 / 2)
   \<and> is_ccw_fallback [] (Single (Some (LinearRing hole_ccw))) = Inr (Flag True)
   \<and> is_ccw_fallback [] (Single (Some (LineString square_cw))) = Inr (Flag False)
   \<and> is_ccw_fallback [] (Single (Some (Point (XY [(0, 0)])))) = Inr (Flag False)"
  using is_ccw_fallback_reference[of "LinearRing (XY [(0, 0), (1, 0), (1, 1)])" "XY [(0, 0), (1, 0), (1, 1)]"]
    is_ccw_fallback_reference[of "LinearRing hole_ccw" hole_ccw]
    is_ccw_fallback_reference[of "LineString square_cw" square_cw]
    is_ccw_fallback_reference[of "Point (XY [(0, 0)])" "XY []"]
  by (simp add: hole_ccw_def square_cw_def signed_area_def signed_area_xy_def)

text \<open>
  C8. Reversing the point order of a closed ring negates its signed area.
\<close>

theorem signed_area_reversal:
  assumes "closed_ring cs"
  shows "\<exists>a. signed_area (LinearRing cs) = Inr a
           \<and> signed_area (LinearRing (reversed cs)) = Inr (- a)"
  using signed_area_closed[OF assms] signed_area_reversed[OF assms]
  by (intro exI[of _ "shoelace (first_two cs) / 2"]) simp

theorem signed_area_reversal_witness:
  "closed_ring hole_ccw
   \<and> signed_area (LinearRing hole_ccw) = Inr 1
   \<and> signed_area (LinearRing (reversed hole_ccw)) = Inr (- 1)"
  using signed_area_reversal[of hole_ccw]
  by (simp add: hole_ccw_def signed_area_def signed_area_xy_def)

section \<open>Claims on constructors and coordinate access\<close>

text \<open>
  C9. The LinearRing constructor given a LinearRing returns that same object, and the
  Polygon constructor given a Polygon as shell returns that same object, whatever the
  holes and the validity check are.
\<close>

theorem constructors_return_same_instance:
  "LinearRing_new valid (ArgGeom (LinearRing cs)) = Inr (Same (LinearRing cs))
   \<and> Polygon_new valid (ArgGeom (Polygon shell holes)) hs = Inr (Same (Polygon shell holes))"
  by (simp add: LinearRing_new_def Polygon_new_def)

theorem constructors_return_same_instance_witness:
  "LinearRing_new (\<lambda>g. False) (ArgGeom (LinearRing square_cw)) = Inr (Same (LinearRing square_cw))
   \<and> Polygon_new (\<lambda>g. False) (ArgGeom (Polygon big_square_cw [hole_ccw])) (Some [ArgNone])
       = Inr (Same (Polygon big_square_cw [hole_ccw]))
   \<and> LinearRing_new (\<lambda>g. True) (ArgGeom (LineString square_cw)) = Inr (Fresh (LinearRing square_cw))"
  using constructors_return_same_instance[of "\<lambda>g. False" square_cw big_square_cw "[hole_ccw]" "Some [ArgNone]"]
  by (simp add: eval_defs)

text \<open>
  C7, as the code has it. For a coordinate buffer of \<open>r\<close> rows and \<open>c\<close> columns,
  \<open>set_coordinates\<close> raises its own error, the ValueError of the shape, exactly when \<open>r\<close>
  differs from the number of coordinates of the geometry or \<open>c\<close> is neither 2 nor 3; and
  whenever it raises that error, for any buffer, it does so before any write: the caller's
  geometry is what it was. Any other error is that of the native writer.
\<close>

theorem set_coordinates_shape_mismatch:
  "(shape B = [r, c] \<longrightarrow>
      ((fst (set_coordinates G B) = Inl ValueError) = (r \<noteq> count_coordinates G \<or> c \<notin> {2, 3})))
   \<and> (fst (set_coordinates G B) = Inl ValueError \<longrightarrow> set_coordinates G B = (Inl ValueError, G))
   \<and> (fst (set_coordinates G B) = Inl e \<and> e \<noteq> ValueError \<longrightarrow> e = GEOSException)"
proof (intro conjI impI)
  assume "shape B = [r, c]"
  then show "(fst (set_coordinates G B) = Inl ValueError) = (r \<noteq> count_coordinates G \<or> c \<notin> {2, 3})"
    unfolding set_coordinates_ValueError_iff by (simp add: atleast_2d_def ndim_def)
next
  assume "fst (set_coordinates G B) = Inl ValueError"
  then show "set_coordinates G B = (Inl ValueError, G)"
    by (rule set_coordinates_ValueError_unmodified)
next
  assume "fst (set_coordinates G B) = Inl e \<and> e \<noteq> ValueError"
  then show "e = GEOSException"
    using set_coordinates_other_error by blast
qed

theorem set_coordinates_shape_mismatch_witness:
  "count_coordinates point_and_line = 3
   \<and> set_coordinates point_and_line buffer_2x2 = (Inl ValueError, point_and_line)
   \<and> set_coordinates point_and_line buffer_3x2
       = (Inr (ArrayOf [Some (Point (XY [(Finite 1, Finite 2)])),
                        Some (LineString (XY [(Finite 3, Finite 4), (Finite 5, Finite 6)]))]),
          ArrayOf [Some (Point (XY [(Finite 1, Finite 2)])),
                   Some (LineString (XY [(Finite 3, Finite 4), (Finite 5, Finite 6)]))])
   \<and> set_coordinates point_and_ring buffer_5x2_open
       = (Inl GEOSException, snd (set_coordinates point_and_ring buffer_5x2_open))"
  using set_coordinates_shape_mismatch[of buffer_2x2 2 2 point_and_line]
    set_coordinates_shape_mismatch[of buffer_3x2 3 2 point_and_line]
    set_coordinates_shape_mismatch[of buffer_5x2_open 5 2 point_and_ring GEOSException]
  by (simp add: eval_coord_defs Let_def eval_nat_numeral)

text \<open>
  C7, as stated: an error exactly when the count of rows or columns is wrong, and the
  geometry unmodified whenever an error is raised. The buffer of five rows and two columns
  has the shape that the array of a point and a ring asks for, and \<open>set_coordinates\<close>
  raises all the same, from the native writer, which refuses to leave the ring open; by
  then the point of the caller's array has been replaced.
\<close>

theorem set_coordinates_native_error_counterexample:
  "count_coordinates point_and_ring = 5
   \<and> shape buffer_5x2_open = [5, 2]
   \<and> set_coordinates point_and_ring buffer_5x2_open
       = (Inl GEOSException,
          ArrayOf [Some (Point (XY [(Finite 9, Finite 9)])),
                   Some (LinearRing (XY [(Finite 0, Finite 0), (Finite 1, Finite 0),
                                         (Finite 1, Finite 1), (Finite 0, Finite 0)]))])
   \<and> snd (set_coordinates point_and_ring buffer_5x2_open) \<noteq> point_and_ring"
  by (simp add: eval_coord_defs Let_def eval_nat_numeral)

section \<open>Claims on the transform pipeline\<close>

text \<open>
  C5, as the code has it. When the first attempt of \<open>_transform_multi_vec\<close> succeeds, its
  result is returned. When the mapping function returned from its call on the whole axes
  and the attempt failed all the same, in the conversion or in the validation of the
  shape and dtype, the failure is dropped and the caller gets whatever the attempt on
  each coordinate gives, run from the state the mapping function was left in.
\<close>

theorem multi_vec_retries_after_any_failure:
  "(private_transform geometry (whole_axes transformation) include_z s = (Inr r, s1)
      \<longrightarrow> private_transform_multi_vec geometry transformation include_z s = (Inr r, s1))
   \<and> (transformation (axes (get_coordinates geometry include_z)) s = (Inr v, s1)
        \<and> fst (private_transform geometry (whole_axes transformation) include_z s) = Inl e
      \<longrightarrow> private_transform_multi_vec geometry transformation include_z s
          = private_transform geometry (per_coordinate transformation) include_z s1)"
proof (intro conjI impI)
  assume "private_transform geometry (whole_axes transformation) include_z s = (Inr r, s1)"
  then show "private_transform_multi_vec geometry transformation include_z s = (Inr r, s1)"
    by (simp add: private_transform_multi_vec_def)
next
  assume a: "transformation (axes (get_coordinates geometry include_z)) s = (Inr v, s1)
        \<and> fst (private_transform geometry (whole_axes transformation) include_z s) = Inl e"
  then have "snd (private_transform geometry (whole_axes transformation) include_z s) = s1"
    by (auto simp: private_transform_def whole_axes_def get_coordinates_def Let_def
          split: sum.splits pyval.splits prod.splits)
  with a have "private_transform geometry (whole_axes transformation) include_z s = (Inl e, s1)"
    by (metis prod.collapse)
  then show "private_transform_multi_vec geometry transformation include_z s
          = private_transform geometry (per_coordinate transformation) include_z s1"
    by (simp add: private_transform_multi_vec_def)
qed


theorem multi_vec_retries_after_any_failure_witness:
  "private_transform_multi_vec line_12_34 axes_identity False 0 = (Inr line_12_34, 1)
   \<and> private_transform_multi_vec line_12_34 axis_sums False 0
       = private_transform line_12_34 (per_coordinate axis_sums) False 1
   \<and> private_transform line_12_34 (per_coordinate axis_sums) False 1 = (Inr line_12_34, 3)"
  using multi_vec_retries_after_any_failure[where geometry = line_12_34
      and transformation = axes_identity and include_z = False and s = 0
      and r = line_12_34 and ?s1.0 = 1]
    multi_vec_retries_after_any_failure[where geometry = line_12_34
      and transformation = axis_sums and include_z = False and s = 0
      and v = "PyTuple [PyFloat (Finite 4), PyFloat (Finite 6)]" and ?s1.0 = 1 and e = ValueError]
  by (simp add: eval_transform_defs Let_def eval_nat_numeral)

text \<open>
  C5, as stated: a validation failure after a successful call would reach the caller.
  The mapping function that sums each axis returns two numbers for the two axes of a line
  of two points; the validation refuses their shape with a ValueError; the second attempt
  runs and the caller gets a geometry, after three calls.
\<close>

theorem multi_vec_validation_failure_masked_counterexample:
  "axis_sums (axes (get_coordinates line_12_34 False)) 0
     = (Inr (PyTuple [PyFloat (Finite 4), PyFloat (Finite 6)]), 1)
   \<and> private_transform line_12_34 (whole_axes axis_sums) False 0 = (Inl ValueError, 1)
   \<and> private_transform_multi_vec line_12_34 axis_sums False 0 = (Inr line_12_34, 3)"
  by (simp add: eval_transform_defs Let_def eval_nat_numeral)

text \<open>
  C6, as the code has it. With \<open>include_z = -1\<close> on a batch the value of include-Z is an
  array with one entry for each element, true where that element is three-dimensional.
  In rebuild mode every element is transformed on its own with its own entry. Otherwise,
  when the entries of a batch that is not empty are all equal, the wrapper is called once
  on the whole batch with that value, and when they differ every element is transformed on
  its own with its own entry.
\<close>

theorem include_z_resolved_per_element:
  "resolve_include_z (ListOf gs) (IZInt (- 1)) = ZArray (map own_z gs)
   \<and> transform valid (ListOf gs) f (IZInt (- 1)) single_vec True s
       = as_array (call_each (\<lambda>g. on_geometry (\<lambda>g'. rebuild_wrapper_for valid f single_vec g' (own_z g)) g) gs s)
   \<and> (gs \<noteq> [] \<and> list_all (\<lambda>g. own_z g = own_z (hd gs)) gs
        \<longrightarrow> transform valid (ListOf gs) f (IZInt (- 1)) single_vec False s
            = wrapper_for f single_vec (ListOf gs) (own_z (hd gs)) s)
   \<and> (\<not> list_all (\<lambda>g. own_z g = own_z (hd gs)) gs
        \<longrightarrow> transform valid (ListOf gs) f (IZInt (- 1)) single_vec False s
            = as_array (call_each (\<lambda>g. on_element (\<lambda>g'. wrapper_for f single_vec g' (own_z g)) g) gs s))"
proof (intro conjI impI)
  show "resolve_include_z (ListOf gs) (IZInt (- 1)) = ZArray (map own_z gs)"
    by (rule resolve_minus_one)
next
  show "transform valid (ListOf gs) f (IZInt (- 1)) single_vec True s
       = as_array (call_each (\<lambda>g. on_geometry (\<lambda>g'. rebuild_wrapper_for valid f single_vec g' (own_z g)) g) gs s)"
    unfolding transform_rebuild_list resolve_minus_one by (rule vectorized_own)
next
  assume a: "gs \<noteq> [] \<and> list_all (\<lambda>g. own_z g = own_z (hd gs)) gs"
  then obtain g gs' where gs: "gs = g # gs'" by (cases gs) auto
  have r: "resolve_include_z (ListOf gs) (IZInt (- 1)) = ZArray (own_z g # map own_z gs')"
    by (simp add: resolve_minus_one gs)
  have "list_all (\<lambda>b. b = own_z g) (map own_z gs')"
    using a by (simp add: gs list_all_iff)
  then show "transform valid (ListOf gs) f (IZInt (- 1)) single_vec False s
            = wrapper_for f single_vec (ListOf gs) (own_z (hd gs)) s"
    unfolding transform_array_z[OF r] by (simp add: gs)
next
  assume a: "\<not> list_all (\<lambda>g. own_z g = own_z (hd gs)) gs"
  then obtain g gs' where gs: "gs = g # gs'" by (cases gs) auto
  have r: "resolve_include_z (ListOf gs) (IZInt (- 1)) = ZArray (own_z g # map own_z gs')"
    by (simp add: resolve_minus_one gs)
  have n: "\<not> list_all (\<lambda>b. b = own_z g) (map own_z gs')"
    using a by (simp add: gs list_all_iff)
  have m: "own_z g # map own_z gs' = map own_z gs" by (simp add: gs)
  show "transform valid (ListOf gs) f (IZInt (- 1)) single_vec False s
            = as_array (call_each (\<lambda>g. on_element (\<lambda>g'. wrapper_for f single_vec g' (own_z g)) g) gs s)"
    unfolding transform_array_z[OF r] m using n by (simp only: if_False vectorized_own)
qed

theorem include_z_resolved_per_element_witness:
  "\<not> list_all (\<lambda>g. own_z g = own_z (hd [Some point_2d, Some point_3d])) [Some point_2d, Some point_3d]
   \<and> transform (\<lambda>g. True) (ListOf [Some point_2d, Some point_3d]) recording_identity
         (IZInt (- 1)) True False []
       = (Inr (ArrayOf [Some point_2d, Some point_3d]), [ [1, 2], [1, 3] ])
   \<and> list_all (\<lambda>g. own_z g = own_z (hd [Some point_3d, Some point_3d])) [Some point_3d, Some point_3d]
   \<and> transform (\<lambda>g. True) (ListOf [Some point_3d, Some point_3d]) recording_identity
         (IZInt (- 1)) True False []
       = (Inr (ArrayOf [Some point_3d, Some point_3d]), [ [2, 3] ])"
  using include_z_resolved_per_element[of "[Some point_2d, Some point_3d]" "\<lambda>g. True"
      recording_identity True "[]"]
    include_z_resolved_per_element[of "[Some point_3d, Some point_3d]" "\<lambda>g. True"
      recording_identity True "[]"]
  by (simp add: eval_batch_defs Let_def eval_nat_numeral)

text \<open>
  C6, as stated: one decision, true when any input geometry is three-dimensional,
  for every element. On a batch of a two-dimensional and a three-dimensional point the
  mapping function is called twice, with an array of two columns for the first point and
  of three columns for the second, and the first point stays two-dimensional; one decision
  for the batch would call it once with an array of three columns.
\<close>

theorem include_z_single_decision_counterexample:
  "list_ex has_z [point_2d, point_3d]
   \<and> transform (\<lambda>g. True) (ListOf [Some point_2d, Some point_3d]) recording_identity
         (IZInt (- 1)) True False []
       = (Inr (ArrayOf [Some point_2d, Some point_3d]), [ [1, 2], [1, 3] ])
   \<and> private_transform (ListOf [Some point_2d, Some point_3d]) (single_arg recording_identity) True []
       = (Inr (ArrayOf [Some point_2d, Some point_3d]), [ [2, 3] ])"
  by (simp add: eval_batch_defs Let_def eval_nat_numeral)

text \<open>
  C10. For an empty geometry, \<open>_transform2\<close> and \<open>_transform2_multi_vec\<close>, and \<open>transform\<close>
  in rebuild mode for either value of \<open>single_vec\<close>, return the geometry itself and leave
  the state of the mapping function as it was, whatever the mapping function is: it is
  never called.
\<close>

theorem rebuild_of_empty_geometry:
  assumes "is_empty G"
  shows "private_transform2 valid G f z s = (Inr (Some G), s)
       \<and> private_transform2_multi_vec valid G f z s = (Inr (Some G), s)
       \<and> transform valid (One (Some G)) f include_z single_vec True s = (Inr (One (Some G)), s)"
  using assms
  by (cases single_vec)
     (simp_all add: transform_def on_geometry_def resolve_include_z_def Let_def)

theorem rebuild_of_empty_geometry_witness:
  "is_empty (MultiPolygon [Polygon (XY []) []] :: f64 geometry)
   \<and> private_transform2 (\<lambda>g. True) (MultiPolygon [Polygon (XY []) []]) always_raises False 0
       = (Inr (Some (MultiPolygon [Polygon (XY []) []])), 0)
   \<and> private_transform2_multi_vec (\<lambda>g. True) (MultiPolygon [Polygon (XY []) []]) always_raises False 0
       = (Inr (Some (MultiPolygon [Polygon (XY []) []])), 0)
   \<and> transform (\<lambda>g. True) (One (Some (MultiPolygon [Polygon (XY []) []]))) always_raises
         (IZInt (- 1)) False True 0
       = (Inr (One (Some (MultiPolygon [Polygon (XY []) []]))), 0)"
  using rebuild_of_empty_geometry[of "MultiPolygon [Polygon (XY []) []]" "\<lambda>g. True" always_raises False 0
      "IZInt (- 1)" False]
  by (simp add: is_empty_def)

end
